theory Spec2Isabelle
  imports Main "HOL-Library.Multiset"
begin

section \<open>JavaScript strings\<close>

text \<open>
  A source string is modelled as a \<^typ>\<open>string\<close>: a list of code units, here the
  code units \<open>0x00\<close> to \<open>0xFF\<close>. The white space of \<open>trim\<close>, \<open>trimStart\<close>,
  \<open>trimEnd\<close> and of the regular-expression class \<open>\s\<close> is, in that range, TAB, LF,
  VT, FF, CR, SPACE and NBSP; the line terminators that \<open>.\<close> refuses are LF and CR.
\<close>

definition isSpace :: "char \<Rightarrow> bool" where
  "isSpace c = (c = CHR 0x09 \<or> c = CHR 0x0A \<or> c = CHR 0x0B \<or> c = CHR 0x0C
                \<or> c = CHR 0x0D \<or> c = CHR 0x20 \<or> c = CHR 0xA0)"

definition isLineTerminator :: "char \<Rightarrow> bool" where
  "isLineTerminator c = (c = CHR 0x0A \<or> c = CHR 0x0D)"

definition trimStart :: "string \<Rightarrow> string" where
  "trimStart s = dropWhile isSpace s"

definition trimEnd :: "string \<Rightarrow> string" where
  "trimEnd s = rev (dropWhile isSpace (rev s))"

definition trim :: "string \<Rightarrow> string" where
  "trim s = trimStart (trimEnd s)"

text \<open>\<open>s.startsWith(p)\<close> and \<open>s.slice(n)\<close> for \<open>0 \<le> n\<close>.\<close>

definition startsWith :: "string \<Rightarrow> string \<Rightarrow> bool" where
  "startsWith s p = (take (length p) s = p)"

definition slice :: "string \<Rightarrow> nat \<Rightarrow> string" where
  "slice s n = drop n s"

text \<open>\<open>s.split("\n")\<close>: always at least one piece.\<close>

fun splitLines :: "string \<Rightarrow> string list" where
  "splitLines [] = [[]]"
| "splitLines (c # cs) =
     (if c = CHR 0x0A then [] # splitLines cs
      else (case splitLines cs of
              [] \<Rightarrow> [[c]]
            | l # ls \<Rightarrow> (c # l) # ls))"

text \<open>\<open>xs.join(sep)\<close>.\<close>

fun joinWith :: "string \<Rightarrow> string list \<Rightarrow> string" where
  "joinWith sep [] = []"
| "joinWith sep [x] = x"
| "joinWith sep (x # y # ys) = x @ sep @ joinWith sep (y # ys)"

text \<open>
  Truthiness of an optional string: \<open>undefined\<close>, \<open>null\<close> and the empty string are
  falsy. \<open>orNull x\<close> is \<open>x || null\<close>, \<open>orEmpty x\<close> is \<open>x || ""\<close>.
\<close>

definition truthy :: "string option \<Rightarrow> bool" where
  "truthy x = (case x of None \<Rightarrow> False | Some s \<Rightarrow> s \<noteq> [])"

definition orNull :: "string option \<Rightarrow> string option" where
  "orNull x = (if truthy x then x else None)"

definition orEmpty :: "string option \<Rightarrow> string" where
  "orEmpty x = (case x of None \<Rightarrow> [] | Some s \<Rightarrow> s)"

definition orElse :: "string option \<Rightarrow> string \<Rightarrow> string" where
  "orElse x d = (if truthy x then the x else d)"

section \<open>Content parsers of \<open>lc_parser.ts\<close>\<close>

subsection \<open>Exercise items\<close>

text \<open>
  \<open>ExerciseItem\<close>. The four fields the backend fills in later (\<open>promptNlp\<close>,
  \<open>responseNlp\<close>, \<open>promptTtsDataURL\<close>, \<open>responseTtsDataURL\<close>) are the constant
  \<open>null\<close> in every item the parser builds and are left out.
\<close>

record ExerciseItem =
  prompt :: string
  promptTranslation :: "string option"
  response :: string
  responseTranslation :: "string option"
  isExample :: bool

text \<open>\<open>currentItem: Partial<ExerciseItem>\<close>.\<close>

record PartialItem =
  pi_prompt :: "string option"
  pi_promptTranslation :: "string option"
  pi_response :: "string option"
  pi_responseTranslation :: "string option"
  pi_isExample :: "bool option"

definition emptyItem :: PartialItem where
  "emptyItem = \<lparr> pi_prompt = None, pi_promptTranslation = None, pi_response = None,
                 pi_responseTranslation = None, pi_isExample = None \<rparr>"

record ExState =
  ex_items :: "ExerciseItem list"
  ex_currentItem :: PartialItem
  ex_isExample :: bool

definition exInit :: ExState where
  "exInit = \<lparr> ex_items = [], ex_currentItem = emptyItem, ex_isExample = False \<rparr>"

text \<open>The item pushed when \<open>currentItem.prompt && currentItem.response\<close>.\<close>

definition itemOf :: "PartialItem \<Rightarrow> ExerciseItem" where
  "itemOf c = \<lparr> prompt = orEmpty (pi_prompt c),
                promptTranslation = orNull (pi_promptTranslation c),
                response = orEmpty (pi_response c),
                responseTranslation = orNull (pi_responseTranslation c),
                isExample = (case pi_isExample c of None \<Rightarrow> False | Some b \<Rightarrow> b) \<rparr>"

definition flushItem :: "ExerciseItem list \<Rightarrow> PartialItem \<Rightarrow> ExerciseItem list" where
  "flushItem items c =
     (if truthy (pi_prompt c) \<and> truthy (pi_response c) then items @ [itemOf c] else items)"

definition exStep :: "ExState \<Rightarrow> string \<Rightarrow> ExState" where
  "exStep st item =
     (if startsWith item ''EXAMPLE:'' then st\<lparr> ex_isExample := True \<rparr>
      else if startsWith item ''PROMPT:'' then
        \<lparr> ex_items = flushItem (ex_items st) (ex_currentItem st),
          ex_currentItem = emptyItem\<lparr> pi_prompt := Some (trim (slice item 7)),
                                       pi_isExample := Some (ex_isExample st) \<rparr>,
          ex_isExample = False \<rparr>
      else if startsWith item ''PROMPT_T:'' then
        st\<lparr> ex_currentItem := (ex_currentItem st)\<lparr> pi_promptTranslation := Some (trim (slice item 9)) \<rparr> \<rparr>
      else if startsWith item ''RESPONSE:'' then
        st\<lparr> ex_currentItem := (ex_currentItem st)\<lparr> pi_response := Some (trim (slice item 9)) \<rparr> \<rparr>
      else if startsWith item ''RESPONSE_T:'' then
        st\<lparr> ex_currentItem := (ex_currentItem st)\<lparr> pi_responseTranslation := Some (trim (slice item 11)) \<rparr> \<rparr>
      else st)"

definition parseExerciseItems :: "string list \<Rightarrow> ExerciseItem list" where
  "parseExerciseItems buffer =
     (let st = foldl exStep exInit buffer in flushItem (ex_items st) (ex_currentItem st))"

subsection \<open>Dialogue lines\<close>

text \<open>
  \<open>DialogueLine\<close>, without the two backend placeholders \<open>nlp\<close> and \<open>ttsDataURL\<close>
  (always \<open>null\<close> here); its fields \<open>text\<close> and \<open>notes\<close> are
  \<open>lineText\<close> and \<open>lineNotes\<close>. A vocabulary entry \<open>{word, definition}\<close> is a pair.
\<close>

type_synonym VocabEntry = "string \<times> string"

record DialogueLine =
  speaker :: "string option"
  lineText :: string
  translation :: string
  lineNotes :: "string option"
  vocab :: "VocabEntry list option"

text \<open>\<open>currentLine: Partial<DialogueLine>\<close>.\<close>

record PartialLine =
  pl_speaker :: "string option"
  pl_text :: "string option"
  pl_translation :: "string option"
  pl_notes :: "string option"
  pl_vocab :: "VocabEntry list option"

definition emptyLine :: PartialLine where
  "emptyLine = \<lparr> pl_speaker = None, pl_text = None, pl_translation = None,
                 pl_notes = None, pl_vocab = None \<rparr>"

record DlgState =
  dl_lines :: "DialogueLine list"
  dl_currentLine :: PartialLine
  dl_pendingVocab :: "VocabEntry list"
  dl_pendingVocabDefinition :: "string option"

definition dlgInit :: DlgState where
  "dlgInit = \<lparr> dl_lines = [], dl_currentLine = emptyLine, dl_pendingVocab = [],
               dl_pendingVocabDefinition = None \<rparr>"

definition lineOf :: "PartialLine \<Rightarrow> DialogueLine" where
  "lineOf c = \<lparr> speaker = orNull (pl_speaker c),
                lineText = orEmpty (pl_text c),
                translation = orEmpty (pl_translation c),
                lineNotes = orNull (pl_notes c),
                vocab = pl_vocab c \<rparr>"

text \<open>
  \<open>pendingVocab[pendingVocab.length - 1].definition = definition\<close>, reached only
  when the list is not empty.
\<close>

definition setLastDefinition :: "VocabEntry list \<Rightarrow> string \<Rightarrow> VocabEntry list" where
  "setLastDefinition pv d = butlast pv @ [(fst (last pv), d)]"

text \<open>
  \<open>if (pendingVocab.length > 0) { currentLine.vocab = pendingVocab; pendingVocab = [] }\<close>
\<close>

definition attachVocab :: "DlgState \<Rightarrow> DlgState" where
  "attachVocab st =
     (if dl_pendingVocab st \<noteq> [] then
        st\<lparr> dl_currentLine := (dl_currentLine st)\<lparr> pl_vocab := Some (dl_pendingVocab st) \<rparr>,
            dl_pendingVocab := [] \<rparr>
      else st)"

definition dlgStep :: "DlgState \<Rightarrow> string \<Rightarrow> DlgState" where
  "dlgStep st item =
     (if startsWith item ''VOCAB:'' then
        st\<lparr> dl_pendingVocab := dl_pendingVocab st
                 @ [(trim (slice item 6), orEmpty (dl_pendingVocabDefinition st))],
            dl_pendingVocabDefinition := None \<rparr>
      else if startsWith item ''VOCAB_T:'' then
        (if dl_pendingVocab st \<noteq> [] then
           st\<lparr> dl_pendingVocab := setLastDefinition (dl_pendingVocab st) (trim (slice item 8)) \<rparr>
         else st\<lparr> dl_pendingVocabDefinition := Some (trim (slice item 8)) \<rparr>)
      else if startsWith item ''LINE_T:'' then
        st\<lparr> dl_currentLine := (dl_currentLine st)\<lparr> pl_translation := Some (trim (slice item 7)) \<rparr> \<rparr>
      else if startsWith item ''NOTES:'' then
        st\<lparr> dl_currentLine := (dl_currentLine st)\<lparr> pl_notes := Some (trim (slice item 6)) \<rparr> \<rparr>
      else if startsWith item ''SPEAKER:'' then
        (let st1 = (if truthy (pl_text (dl_currentLine st)) then
                      st\<lparr> dl_lines := dl_lines st @ [lineOf (dl_currentLine st)],
                          dl_currentLine := emptyLine \<rparr>
                    else st);
             st2 = st1\<lparr> dl_currentLine := (dl_currentLine st1)\<lparr> pl_speaker := Some (trim (slice item 8)) \<rparr> \<rparr>
         in attachVocab st2)
      else if startsWith item ''LINE:'' then
        (let st1 = (if truthy (pl_text (dl_currentLine st)) then
                      st\<lparr> dl_lines := dl_lines st @ [lineOf (dl_currentLine st)],
                          dl_currentLine := emptyLine\<lparr> pl_speaker := pl_speaker (dl_currentLine st) \<rparr> \<rparr>
                    else st);
             st2 = st1\<lparr> dl_currentLine := (dl_currentLine st1)\<lparr> pl_text := Some (trim (slice item 5)) \<rparr> \<rparr>
         in attachVocab st2)
      else st)"

definition dlgFinish :: "DlgState \<Rightarrow> DialogueLine list" where
  "dlgFinish st =
     (if truthy (pl_text (dl_currentLine st)) then dl_lines st @ [lineOf (dl_currentLine st)]
      else dl_lines st)"

definition parseDialogueLines :: "string list \<Rightarrow> DialogueLine list" where
  "parseDialogueLines buffer = dlgFinish (foldl dlgStep dlgInit buffer)"

subsection \<open>Grammar content\<close>

definition parseGrammarContent :: "string list \<Rightarrow> string" where
  "parseGrammarContent buffer = trim (joinWith [CHR 0x0A] buffer)"

section \<open>Regular expressions of the parser\<close>

definition isUpperAZ :: "char \<Rightarrow> bool" where
  "isUpperAZ c = (let n = (of_char c :: nat) in 65 \<le> n \<and> n \<le> 90)"

definition isLowerAZ :: "char \<Rightarrow> bool" where
  "isLowerAZ c = (let n = (of_char c :: nat) in 97 \<le> n \<and> n \<le> 122)"

definition isDigit :: "char \<Rightarrow> bool" where
  "isDigit c = (let n = (of_char c :: nat) in 48 \<le> n \<and> n \<le> 57)"

text \<open>\<open>[A-Z_]\<close>, \<open>\w\<close> and \<open>[a-z0-9]\<close>.\<close>

definition isFieldChar :: "char \<Rightarrow> bool" where
  "isFieldChar c = (isUpperAZ c \<or> c = CHR ''_'')"

definition isWordChar :: "char \<Rightarrow> bool" where
  "isWordChar c = (isUpperAZ c \<or> isLowerAZ c \<or> isDigit c \<or> c = CHR ''_'')"

definition isSlugChar :: "char \<Rightarrow> bool" where
  "isSlugChar c = (isLowerAZ c \<or> isDigit c)"

text \<open>
  \<open>/^([A-Z_]+):\s*(.*)?$/\<close>: the longest run of \<open>[A-Z_]\<close> at the start, not empty,
  then a colon; \<open>\s*\<close> takes all the white space that follows, and \<open>.*\<close> has to
  reach the end of the string, which it does unless a line terminator is left. The
  result is the pair (group 1, group 2), group 2 read through \<open>|| ""\<close>.
\<close>

definition matchField :: "string \<Rightarrow> (string \<times> string) option" where
  "matchField s =
     (let f = takeWhile isFieldChar s; r = dropWhile isFieldChar s in
      if f = [] then None
      else (case r of
              [] \<Rightarrow> None
            | c # r' \<Rightarrow>
                if c \<noteq> CHR '':'' then None
                else (let v = dropWhile isSpace r' in
                      if list_ex isLineTerminator v then None else Some (f, v))))"

text \<open>
  \<open>/^\$(\w+)(?:\s+(.*))?$/\<close>: a dollar, the longest run of \<open>\w\<close>, not empty, then
  either the end of the string (the title group is \<open>undefined\<close>) or at least one
  white-space character, all white space taken by \<open>\s+\<close>, and a title that reaches
  the end of the string without a line terminator.
\<close>

definition matchMarker :: "string \<Rightarrow> (string \<times> string option) option" where
  "matchMarker s =
     (case s of
        [] \<Rightarrow> None
      | c # r \<Rightarrow>
          if c \<noteq> CHR ''$'' then None
          else (let w = takeWhile isWordChar r; r1 = dropWhile isWordChar r in
                if w = [] then None
                else (case r1 of
                        [] \<Rightarrow> Some (w, None)
                      | d # _ \<Rightarrow>
                          if \<not> isSpace d then None
                          else (let t = dropWhile isSpace r1 in
                                if list_ex isLineTerminator t then None
                                else Some (w, Some t)))))"

text \<open>
  \<open>/^([^|]+)(?:\s*\|\s*(.*))?$/\<close>: group 1 is everything before the first pipe and
  is not empty; when a pipe is there, group 2 is what follows it and its white space,
  free of line terminators.
\<close>

definition notPipe :: "char \<Rightarrow> bool" where
  "notPipe c = (c \<noteq> CHR ''|'')"

definition matchVoice :: "string \<Rightarrow> (string \<times> string option) option" where
  "matchVoice s =
     (let g1 = takeWhile notPipe s; r = dropWhile notPipe s in
      if g1 = [] then None
      else (case r of
              [] \<Rightarrow> Some (g1, None)
            | _ # r' \<Rightarrow>
                (let t = dropWhile isSpace r' in
                 if list_ex isLineTerminator t then None else Some (g1, Some t))))"

text \<open>
  \<open>/^(.+?)\s*=\s*([^|]+)(?:\s*\|\s*(.*))?$/\<close>. \<open>afterEq\<close> is the part after the
  equals sign, \<open>\s*([^|]+)(?:\s*\|\s*(.*))?$\<close>: the white space is skipped and group 2
  runs to the first pipe; when nothing is left for group 2, \<open>\s*\<close> gives back its
  last character to it. \<open>tryEq\<close> is \<open>\s*=\<close> followed by that. The lazy group 1
  is the shortest prefix, of at least one character and without line terminator,
  after which \<open>tryEq\<close> succeeds.
\<close>

definition afterEq :: "string \<Rightarrow> (string \<times> string option) option" where
  "afterEq r =
     (let ws = takeWhile isSpace r; r2 = dropWhile isSpace r;
          g = takeWhile notPipe r2; r3 = dropWhile notPipe r2;
          g2 = (if g \<noteq> [] then g else if ws \<noteq> [] then [last ws] else [])
      in if g2 = [] then None
         else (case r3 of
                 [] \<Rightarrow> Some (g2, None)
               | _ # r' \<Rightarrow>
                   (let t = dropWhile isSpace r' in
                    if list_ex isLineTerminator t then None else Some (g2, Some t))))"

definition tryEq :: "string \<Rightarrow> (string \<times> string option) option" where
  "tryEq rest =
     (case dropWhile isSpace rest of
        [] \<Rightarrow> None
      | c # r' \<Rightarrow> if c = CHR ''='' then afterEq r' else None)"

fun speakerFrom :: "string \<Rightarrow> string \<Rightarrow> (string \<times> string \<times> string option) option" where
  "speakerFrom pre [] =
     (if list_ex isLineTerminator pre then None
      else (case tryEq [] of Some (g2, g3) \<Rightarrow> Some (pre, g2, g3) | None \<Rightarrow> None))"
| "speakerFrom pre (c # cs) =
     (if list_ex isLineTerminator pre then None
      else (case tryEq (c # cs) of
              Some (g2, g3) \<Rightarrow> Some (pre, g2, g3)
            | None \<Rightarrow> speakerFrom (pre @ [c]) cs))"

definition matchSpeaker :: "string \<Rightarrow> (string \<times> string \<times> string option) option" where
  "matchSpeaker s = (case s of [] \<Rightarrow> None | c # cs \<Rightarrow> speakerFrom [c] cs)"

text \<open>\<open>s.split("|")\<close>.\<close>

fun splitPipe :: "string \<Rightarrow> string list" where
  "splitPipe [] = [[]]"
| "splitPipe (c # cs) =
     (if c = CHR ''|'' then [] # splitPipe cs
      else (case splitPipe cs of
              [] \<Rightarrow> [[c]]
            | l # ls \<Rightarrow> (c # l) # ls))"

subsection \<open>Identifiers\<close>

text \<open>
  \<open>toLowerCase\<close> on the code units \<open>0x00\<close> to \<open>0xFF\<close>: the letters A to Z and the
  Latin-1 capitals \<open>0xC0\<close> to \<open>0xDE\<close>, the multiplication sign \<open>0xD7\<close> apart, move up
  by \<open>0x20\<close>.
\<close>

definition toLowerChar :: "char \<Rightarrow> char" where
  "toLowerChar c =
     (let n = (of_char c :: nat) in
      if (65 \<le> n \<and> n \<le> 90) \<or> (192 \<le> n \<and> n \<le> 222 \<and> n \<noteq> 215)
      then char_of (n + 32) else c)"

definition toLowerCase :: "string \<Rightarrow> string" where
  "toLowerCase s = map toLowerChar s"

text \<open>
  \<open>.replace(/[^a-z0-9]+/g, "-")\<close>: every maximal run of other characters becomes one
  dash; the flag says whether the previous character was already part of a run.
\<close>

fun dashRuns :: "bool \<Rightarrow> string \<Rightarrow> string" where
  "dashRuns inRun [] = []"
| "dashRuns inRun (c # cs) =
     (if isSlugChar c then c # dashRuns False cs
      else if inRun then dashRuns True cs
      else CHR ''-'' # dashRuns True cs)"

text \<open>\<open>.replace(/^-|-$/g, "")\<close>: one dash goes at the start, one at the end.\<close>

definition stripDashes :: "string \<Rightarrow> string" where
  "stripDashes s =
     (let s1 = (case s of [] \<Rightarrow> [] | c # cs \<Rightarrow> if c = CHR ''-'' then cs else s)
      in if s1 \<noteq> [] \<and> last s1 = CHR ''-'' then butlast s1 else s1)"

definition slug :: "string \<Rightarrow> string" where
  "slug s = stripDashes (dashRuns False (toLowerCase s))"

definition generateLessonId :: "string \<Rightarrow> string" where
  "generateLessonId title = slug title"

definition generateActivityId :: "string \<Rightarrow> string \<Rightarrow> string" where
  "generateActivityId ty title = ty @ ''-'' @ slug title"

section \<open>The module parser of \<open>lc_parser.ts\<close>\<close>

subsection \<open>The document tree\<close>

datatype ActivityKind = DIALOGUE | GRAMMAR | EXERCISE | CHAT

fun kindName :: "ActivityKind \<Rightarrow> string" where
  "kindName DIALOGUE = ''DIALOGUE''"
| "kindName GRAMMAR = ''GRAMMAR''"
| "kindName EXERCISE = ''EXERCISE''"
| "kindName CHAT = ''CHAT''"

text \<open>
  An activity is the object \<open>{type, id, title, intro}\<close> extended with the properties
  of its kind, a property the object does not have being \<open>None\<close> (as is one that
  holds \<open>null\<close>). \<open>kind\<close> is the source's discriminant \<open>type\<close>; \<open>lines\<close> and
  \<open>items\<close> are \<open>dlgLines\<close> and \<open>exItems\<close>.
\<close>

record Activity =
  kind :: ActivityKind
  actId :: string
  actTitle :: string
  intro :: "string option"
  instruction :: "string option"
  ttsPrompt :: "string option"
  dlgLines :: "DialogueLine list option"
  exItems :: "ExerciseItem list option"
  content :: "string option"
  scenario :: "string option"
  initialPrompt :: "string option"

record Lesson =
  lessonId :: string
  lessonTitle :: string
  activities :: "Activity list"

text \<open>\<open>{voice, prompt}\<close>, with \<open>displayName: null\<close> when the \<open>VOICE\<close> field wrote it.\<close>

record VoiceSpec =
  voice :: string
  voicePrompt :: "string option"
  hasDisplayName :: bool

record ModuleVoiceConfig =
  vcDefault :: "VoiceSpec option"
  vcPrompt :: "VoiceSpec option"
  vcResponse :: "VoiceSpec option"
  vcIntroVoice :: "VoiceSpec option"
  vcSpeakers :: "string \<rightharpoonup> VoiceSpec"

text \<open>\<open>state.module: Partial<Module>\<close>, with the untyped \<open>ttsPrompt\<close>.\<close>

record PartialModule =
  pm_diocoDocId :: "string option"
  pm_title :: "string option"
  pm_description :: "string option"
  pm_image :: "string option"
  pm_targetLang_G :: "string option"
  pm_homeLang_G :: "string option"
  pm_ttsPrompt :: "string option"
  pm_lessons :: "Lesson list"

record Module =
  diocoDocId :: string
  title :: string
  description :: "string option"
  image :: "string option"
  targetLang_G :: string
  homeLang_G :: string
  voiceConfig :: ModuleVoiceConfig
  modTtsPrompt :: "string option"
  lessons :: "Lesson list"

record ParserState =
  ps_module :: PartialModule
  ps_voiceConfig :: ModuleVoiceConfig
  currentLesson :: "Lesson option"
  currentActivity :: "Activity option"
  activityContentBuffer :: "string list"

definition initialState :: ParserState where
  "initialState =
     \<lparr> ps_module = \<lparr> pm_diocoDocId = None, pm_title = None, pm_description = None,
                      pm_image = None, pm_targetLang_G = None, pm_homeLang_G = None,
                      pm_ttsPrompt = None, pm_lessons = [] \<rparr>,
       ps_voiceConfig = \<lparr> vcDefault = None, vcPrompt = None, vcResponse = None,
                           vcIntroVoice = None, vcSpeakers = Map.empty \<rparr>,
       currentLesson = None,
       currentActivity = None,
       activityContentBuffer = [] \<rparr>"

subsection \<open>Closing and opening sections\<close>

definition finalizeActivity :: "ParserState \<Rightarrow> ParserState" where
  "finalizeActivity st =
     (case currentActivity st of
        None \<Rightarrow> st
      | Some activity \<Rightarrow>
          (case currentLesson st of
             None \<Rightarrow> st
           | Some lesson \<Rightarrow>
               (let buffer = activityContentBuffer st;
                    activity' =
                      (case kind activity of
                         DIALOGUE \<Rightarrow> activity\<lparr> dlgLines := Some (parseDialogueLines buffer) \<rparr>
                       | GRAMMAR \<Rightarrow> activity\<lparr> content := Some (parseGrammarContent buffer) \<rparr>
                       | EXERCISE \<Rightarrow> activity\<lparr> exItems := Some (parseExerciseItems buffer) \<rparr>
                       | CHAT \<Rightarrow> activity)
                in st\<lparr> currentLesson := Some (lesson\<lparr> activities := activities lesson @ [activity'] \<rparr>),
                       currentActivity := None,
                       activityContentBuffer := [] \<rparr>)))"

definition finalizeLesson :: "ParserState \<Rightarrow> ParserState" where
  "finalizeLesson st =
     (case currentLesson st of
        None \<Rightarrow> st
      | Some lesson \<Rightarrow>
          st\<lparr> ps_module := (ps_module st)\<lparr> pm_lessons := pm_lessons (ps_module st) @ [lesson] \<rparr>,
              currentLesson := None \<rparr>)"

definition baseActivity :: "ActivityKind \<Rightarrow> string \<Rightarrow> Activity" where
  "baseActivity ty ttl =
     \<lparr> kind = ty, actId = generateActivityId (kindName ty) ttl, actTitle = ttl,
       intro = None, instruction = None, ttsPrompt = None, dlgLines = None,
       exItems = None, content = None, scenario = None, initialPrompt = None \<rparr>"

definition startActivity :: "ParserState \<Rightarrow> ActivityKind \<Rightarrow> string \<Rightarrow> ParserState" where
  "startActivity st ty ttl =
     (let st1 = finalizeActivity st;
          st2 = (if currentLesson st1 = None then
                   st1\<lparr> currentLesson := Some \<lparr> lessonId = ''default-lesson'',
                                                 lessonTitle = ''Default Lesson'',
                                                 activities = [] \<rparr> \<rparr>
                 else st1);
          activity =
            (case ty of
               DIALOGUE \<Rightarrow> (baseActivity ty ttl)\<lparr> dlgLines := Some [] \<rparr>
             | EXERCISE \<Rightarrow> (baseActivity ty ttl)\<lparr> exItems := Some [] \<rparr>
             | GRAMMAR \<Rightarrow> (baseActivity ty ttl)\<lparr> content := Some [] \<rparr>
             | CHAT \<Rightarrow> (baseActivity ty ttl)\<lparr> scenario := Some [], initialPrompt := Some [] \<rparr>)
      in st2\<lparr> currentActivity := Some activity, activityContentBuffer := [] \<rparr>)"

text \<open>
  \<open>handleSectionMarker\<close>. A line that the marker expression rejects, and a marker
  word outside the six known ones (only logged), leave the state as it is.
\<close>

definition handleSectionMarker :: "string \<Rightarrow> ParserState \<Rightarrow> ParserState" where
  "handleSectionMarker line st =
     (case matchMarker line of
        None \<Rightarrow> st
      | Some (marker, ttl) \<Rightarrow>
          if marker = ''MODULE'' then st
          else if marker = ''LESSON'' then
            (let st1 = finalizeLesson (finalizeActivity st)
             in st1\<lparr> currentLesson := Some \<lparr> lessonId = generateLessonId (orElse ttl ''Untitled''),
                                              lessonTitle = orElse ttl ''Untitled Lesson'',
                                              activities = [] \<rparr> \<rparr>)
          else if marker = ''DIALOGUE'' then startActivity st DIALOGUE (orElse ttl ''Dialogue'')
          else if marker = ''GRAMMAR'' then startActivity st GRAMMAR (orElse ttl ''Grammar'')
          else if marker = ''EXERCISE'' then startActivity st EXERCISE (orElse ttl ''Exercise'')
          else if marker = ''CHAT'' then startActivity st CHAT (orElse ttl ''Chat'')
          else st)"

subsection \<open>Fields\<close>

text \<open>
  The voice value of \<open>VOICE_DEFAULT\<close>, \<open>VOICE_PROMPT\<close>, \<open>VOICE_RESPONSE\<close> and
  \<open>VOICE_INTRO\<close>: \<open>None\<close> when the expression rejects the value (the slot is then
  left alone).
\<close>

definition voiceSpecOf :: "string \<Rightarrow> VoiceSpec option" where
  "voiceSpecOf v =
     (case matchVoice v of
        None \<Rightarrow> None
      | Some (g1, g2) \<Rightarrow>
          Some \<lparr> voice = trim g1,
                 voicePrompt = (if truthy g2 then Some (trim (orEmpty g2)) else None),
                 hasDisplayName = False \<rparr>)"

text \<open>
  \<open>speakers[key] = spec\<close> on the plain object \<open>speakers\<close>, seen as the map of its
  own properties: the key \<open>__proto__\<close> is the accessor of the prototype, and an
  assignment to it creates no property.
\<close>

definition setProperty :: "(string \<rightharpoonup> VoiceSpec) \<Rightarrow> string \<Rightarrow> VoiceSpec \<Rightarrow> (string \<rightharpoonup> VoiceSpec)" where
  "setProperty obj key spec = (if key = ''__proto__'' then obj else obj(key \<mapsto> spec))"

definition bufferedFields :: "string list" where
  "bufferedFields = [''SPEAKER'', ''LINE'', ''LINE_T'', ''NOTES'', ''VOCAB'', ''VOCAB_T'',
                     ''PROMPT'', ''PROMPT_T'', ''RESPONSE'', ''RESPONSE_T'']"

text \<open>The first \<open>switch\<close> of \<open>handleField\<close>: \<open>None\<close> when no case returns.\<close>

definition handleModuleField :: "string \<Rightarrow> string \<Rightarrow> ParserState \<Rightarrow> ParserState option" where
  "handleModuleField field v st =
     (let m = ps_module st; vc = ps_voiceConfig st in
      if field = ''DIOCO_DOC_ID'' then Some (st\<lparr> ps_module := m\<lparr> pm_diocoDocId := Some v \<rparr> \<rparr>)
      else if field = ''TITLE'' then Some (st\<lparr> ps_module := m\<lparr> pm_title := Some v \<rparr> \<rparr>)
      else if field = ''DESCRIPTION'' then Some (st\<lparr> ps_module := m\<lparr> pm_description := Some v \<rparr> \<rparr>)
      else if field = ''IMAGE'' then Some (st\<lparr> ps_module := m\<lparr> pm_image := Some v \<rparr> \<rparr>)
      else if field = ''TARGET_LANG_G'' then Some (st\<lparr> ps_module := m\<lparr> pm_targetLang_G := Some v \<rparr> \<rparr>)
      else if field = ''HOME_LANG_G'' \<or> field = ''USER_LANG_G'' then
        Some (st\<lparr> ps_module := m\<lparr> pm_homeLang_G := Some v \<rparr> \<rparr>)
      else if field = ''TTS_PROMPT'' then Some (st\<lparr> ps_module := m\<lparr> pm_ttsPrompt := Some v \<rparr> \<rparr>)
      else if field = ''VOICE_DEFAULT'' then
        Some (case voiceSpecOf v of None \<Rightarrow> st
              | Some x \<Rightarrow> st\<lparr> ps_voiceConfig := vc\<lparr> vcDefault := Some x \<rparr> \<rparr>)
      else if field = ''VOICE_PROMPT'' then
        Some (case voiceSpecOf v of None \<Rightarrow> st
              | Some x \<Rightarrow> st\<lparr> ps_voiceConfig := vc\<lparr> vcPrompt := Some x \<rparr> \<rparr>)
      else if field = ''VOICE_RESPONSE'' then
        Some (case voiceSpecOf v of None \<Rightarrow> st
              | Some x \<Rightarrow> st\<lparr> ps_voiceConfig := vc\<lparr> vcResponse := Some x \<rparr> \<rparr>)
      else if field = ''VOICE_INTRO'' then
        Some (case voiceSpecOf v of None \<Rightarrow> st
              | Some x \<Rightarrow> st\<lparr> ps_voiceConfig := vc\<lparr> vcIntroVoice := Some x \<rparr> \<rparr>)
      else if field = ''VOICE_SPEAKER'' then
        Some (case matchSpeaker v of None \<Rightarrow> st
              | Some (speakerName, voiceName, p) \<Rightarrow>
                  st\<lparr> ps_voiceConfig := vc\<lparr> vcSpeakers := setProperty (vcSpeakers vc)
                        (trim speakerName)
                        \<lparr> voice = trim voiceName,
                          voicePrompt = (if truthy p then Some (trim (orEmpty p)) else None),
                          hasDisplayName = False \<rparr> \<rparr> \<rparr>)
      else if field = ''VOICE'' then
        Some (let parts = map trim (splitPipe v) in
              if 2 \<le> length parts then
                st\<lparr> ps_voiceConfig := vc\<lparr> vcSpeakers := setProperty (vcSpeakers vc)
                      (parts ! 0)
                      \<lparr> voice = parts ! 1,
                        voicePrompt = orNull (Some (joinWith '' | '' (drop 2 parts))),
                        hasDisplayName = True \<rparr> \<rparr> \<rparr>
              else st)
      else None)"

text \<open>The second \<open>switch\<close> of \<open>handleField\<close>, on an open activity.\<close>

definition handleActivityField :: "string \<Rightarrow> string \<Rightarrow> Activity \<Rightarrow> ParserState \<Rightarrow> ParserState" where
  "handleActivityField field v activity st =
     (if field = ''TTS_PROMPT'' then
        (if kind activity = DIALOGUE \<or> kind activity = EXERCISE
         then st\<lparr> currentActivity := Some (activity\<lparr> ttsPrompt := Some v \<rparr>) \<rparr> else st)
      else if field = ''INSTRUCTION'' then
        (if kind activity = DIALOGUE \<or> kind activity = EXERCISE
         then st\<lparr> currentActivity := Some (activity\<lparr> instruction := Some v \<rparr>) \<rparr> else st)
      else if field = ''INTRO'' then st\<lparr> currentActivity := Some (activity\<lparr> intro := Some v \<rparr>) \<rparr>
      else if field = ''SCENARIO'' then
        (if kind activity = CHAT
         then st\<lparr> currentActivity := Some (activity\<lparr> scenario := Some v \<rparr>) \<rparr> else st)
      else if field = ''INITIAL_PROMPT'' then
        (if kind activity = CHAT
         then st\<lparr> currentActivity := Some (activity\<lparr> initialPrompt := Some v \<rparr>) \<rparr> else st)
      else if field \<in> set bufferedFields then
        st\<lparr> activityContentBuffer := activityContentBuffer st @ [field @ '':'' @ v] \<rparr>
      else st)"

definition handleField :: "string \<Rightarrow> string \<Rightarrow> ParserState \<Rightarrow> ParserState" where
  "handleField field v st =
     (case (if currentActivity st = None \<and> currentLesson st = None
            then handleModuleField field v st else None) of
        Some st' \<Rightarrow> st'
      | None \<Rightarrow>
          (case currentActivity st of
             None \<Rightarrow> st
           | Some activity \<Rightarrow> handleActivityField field v activity st))"

subsection \<open>Lines and the whole file\<close>

definition inExercise :: "ParserState \<Rightarrow> bool" where
  "inExercise st = (case currentActivity st of None \<Rightarrow> False | Some a \<Rightarrow> kind a = EXERCISE)"

definition processLine :: "string \<Rightarrow> ParserState \<Rightarrow> ParserState" where
  "processLine line st =
     (let trimmed = trimEnd line in
      if startsWith (trimStart trimmed) ''#'' then st
      else if startsWith trimmed ''$'' then handleSectionMarker trimmed st
      else if trimmed = ''EXAMPLE'' \<and> inExercise st then
        st\<lparr> activityContentBuffer := activityContentBuffer st @ [''EXAMPLE:''] \<rparr>
      else (case matchField trimmed of
              Some (field, v) \<Rightarrow> handleField field v st
            | None \<Rightarrow>
                if currentActivity st \<noteq> None
                then st\<lparr> activityContentBuffer := activityContentBuffer st @ [line] \<rparr>
                else st))"

text \<open>
  The thrown \<open>Error\<close> with its message. Nothing in \<open>processLine\<close> throws, so the
  \<open>catch\<close> around it in \<open>parseModuleFile\<close> is never entered and the only errors are
  the four of the final validation, tested in the source's order.
\<close>

datatype error = Error string

definition scanLines :: "string list \<Rightarrow> ParserState" where
  "scanLines ls = foldl (\<lambda>st line. processLine line st) initialState ls"

definition finalState :: "string \<Rightarrow> ParserState" where
  "finalState input = finalizeLesson (finalizeActivity (scanLines (splitLines input)))"

definition parseModuleFile :: "string \<Rightarrow> error + Module" where
  "parseModuleFile input =
     (let st = finalState input; m = ps_module st in
      if \<not> truthy (pm_diocoDocId m) then Inl (Error ''Missing DIOCO_DOC_ID in .module file'')
      else if \<not> truthy (pm_title m) then Inl (Error ''Missing TITLE in .module file'')
      else if \<not> truthy (pm_targetLang_G m) then Inl (Error ''Missing TARGET_LANG_G in .module file'')
      else if \<not> truthy (pm_homeLang_G m) then Inl (Error ''Missing HOME_LANG_G in .module file'')
      else Inr \<lparr> diocoDocId = orEmpty (pm_diocoDocId m),
                 title = orEmpty (pm_title m),
                 description = orNull (pm_description m),
                 image = orNull (pm_image m),
                 targetLang_G = orEmpty (pm_targetLang_G m),
                 homeLang_G = orEmpty (pm_homeLang_G m),
                 voiceConfig = ps_voiceConfig st,
                 modTtsPrompt = pm_ttsPrompt m,
                 lessons = pm_lessons m \<rparr>)"

section \<open>The source block indexer of \<open>source_index.ts\<close>\<close>

record RawBlock =
  startLine :: nat
  endLine :: nat
  blockText :: string

text \<open>The file's own \<open>slug\<close> and \<open>generateActivityId\<close>.\<close>

definition slug_idx :: "string \<Rightarrow> string" where
  "slug_idx s = stripDashes (dashRuns False (toLowerCase s))"

definition generateActivityId_idx :: "string \<Rightarrow> string \<Rightarrow> string" where
  "generateActivityId_idx ty ttl = ty @ ''-'' @ slug_idx (if ttl \<noteq> [] then ttl else ''untitled'')"

record IndexState =
  idx_map :: "string \<rightharpoonup> RawBlock"
  idx_current :: "(string \<times> nat) option"

text \<open>
  \<open>close(endIdxInclusive)\<close>; \<open>lines.slice(a, b + 1)\<close> is \<open>take (b + 1 - a) (drop a lines)\<close>.
\<close>

definition closeBlock :: "string list \<Rightarrow> IndexState \<Rightarrow> nat \<Rightarrow> IndexState" where
  "closeBlock ls st endIdxInclusive =
     (case idx_current st of
        None \<Rightarrow> st
      | Some (cid, startIdx) \<Rightarrow>
          \<lparr> idx_map = (idx_map st)(cid \<mapsto>
                \<lparr> startLine = startIdx + 1,
                  endLine = endIdxInclusive + 1,
                  blockText = joinWith [CHR 0x0A]
                                (take (endIdxInclusive + 1 - startIdx) (drop startIdx ls)) \<rparr>),
            idx_current = None \<rparr>)"

definition activityMarkers :: "string list" where
  "activityMarkers = [''DIALOGUE'', ''GRAMMAR'', ''EXERCISE'', ''CHAT'']"

text \<open>
  One turn of the loop, at index \<open>i\<close>. A block is open only from an earlier index,
  so \<open>close(i - 1)\<close> is never reached with \<open>i = 0\<close>.
\<close>

definition indexStep :: "string list \<Rightarrow> IndexState \<Rightarrow> nat \<Rightarrow> IndexState" where
  "indexStep ls st i =
     (let trimmedEnd = trimEnd (ls ! i) in
      if \<not> startsWith trimmedEnd ''$'' then st
      else (let st1 = (if idx_current st \<noteq> None then closeBlock ls st (i - 1) else st) in
            case matchMarker trimmedEnd of
              None \<Rightarrow> st1
            | Some (marker, m2) \<Rightarrow>
                (let ttl = trim (case m2 of None \<Rightarrow> [] | Some t \<Rightarrow> t) in
                 if marker \<in> set activityMarkers then
                   st1\<lparr> idx_current :=
                          Some (generateActivityId_idx marker (if ttl \<noteq> [] then ttl else marker), i) \<rparr>
                 else st1)))"

definition buildActivityRawIndex :: "string \<Rightarrow> (string \<rightharpoonup> RawBlock)" where
  "buildActivityRawIndex input =
     (let ls = splitLines input;
          st = foldl (indexStep ls) \<lparr> idx_map = Map.empty, idx_current = None \<rparr> [0..<length ls];
          st' = (if idx_current st \<noteq> None then closeBlock ls st (length ls - 1) else st)
      in idx_map st')"

section \<open>The linter \<open>lintModuleText\<close>\<close>

subsection \<open>Diagnostics and the grammar tables\<close>

datatype Severity = SevError | SevWarning

text \<open>
  \<open>Diagnostic\<close>: \<open>{severity, line, message, code}\<close>; every \<open>push\<close> of the linter
  gives a code.
\<close>

record Diagnostic =
  dSeverity :: Severity
  dLine :: nat
  dMessage :: string
  dCode :: string

definition push :: "Severity \<Rightarrow> nat \<Rightarrow> string \<Rightarrow> string \<Rightarrow> Diagnostic" where
  "push sev lineNo msg c = \<lparr> dSeverity = sev, dLine = lineNo, dMessage = msg, dCode = c \<rparr>"

text \<open>The tables of \<open>spec_from_ebnf.ts\<close>.\<close>

definition sectionNames :: "string list" where
  "sectionNames = [''CHAT'', ''DIALOGUE'', ''EXERCISE'', ''GRAMMAR'', ''LESSON'', ''MODULE'']"

definition ebnfHeaderFields :: "string list" where
  "ebnfHeaderFields = [''DESCRIPTION'', ''DIOCO_DOC_ID'', ''HOME_LANG_G'', ''IMAGE'',
                       ''TARGET_LANG_G'', ''TITLE'', ''USER_LANG_G'']"

definition voiceFields :: "string list" where
  "voiceFields = [''VOICE_DEFAULT'', ''VOICE_INTRO'', ''VOICE_PROMPT'', ''VOICE_RESPONSE'',
                  ''VOICE_SPEAKER'']"

definition headerFields :: "string list" where
  "headerFields = ebnfHeaderFields @ voiceFields"

definition dialogueFields :: "string list" where
  "dialogueFields = [''INSTRUCTION'', ''INTRO'', ''LINE'', ''LINE_T'', ''NOTES'', ''SPEAKER'',
                     ''VOCAB'', ''VOCAB_T'']"

definition exerciseFields :: "string list" where
  "exerciseFields = [''INSTRUCTION'', ''INTRO'', ''PROMPT'', ''PROMPT_T'', ''RESPONSE'',
                     ''RESPONSE_T'']"

definition grammarFields :: "string list" where
  "grammarFields = [''INTRO'']"

definition chatFields :: "string list" where
  "chatFields = [''INITIAL_PROMPT'', ''INTRO'', ''SCENARIO'']"

definition exampleMarker :: string where
  "exampleMarker = ''EXAMPLE''"

definition VALID_GEMINI_VOICES :: "string list" where
  "VALID_GEMINI_VOICES =
     [''Zephyr'', ''Puck'', ''Charon'', ''Kore'', ''Fenrir'', ''Leda'', ''Orus'', ''Aoede'',
      ''Callirrhoe'', ''Autonoe'', ''Enceladus'', ''Iapetus'', ''Umbriel'', ''Algieba'',
      ''Despina'', ''Erinome'', ''Algenib'', ''Rasalgethi'', ''Laomedeia'', ''Achernar'',
      ''Alnilam'', ''Schedar'', ''Gacrux'', ''Pulcherrima'', ''Achird'', ''Zubenelgenubi'',
      ''Vindemiatrix'', ''Sadachbia'', ''Sadaltager'', ''Sulafat'']"

text \<open>\<open>idNoSpacesRe = /^[A-Za-z][A-Za-z0-9_]*$/\<close>.\<close>

definition idNoSpacesRe :: "string \<Rightarrow> bool" where
  "idNoSpacesRe s =
     (case s of
        [] \<Rightarrow> False
      | c # cs \<Rightarrow> (isUpperAZ c \<or> isLowerAZ c) \<and> list_all isWordChar cs)"

text \<open>\<open>/^[A-Z_]+:/.test(t)\<close>.\<close>

definition testFieldPrefix :: "string \<Rightarrow> bool" where
  "testFieldPrefix t =
     (takeWhile isFieldChar t \<noteq> [] \<and> startsWith (dropWhile isFieldChar t) '':'')"

text \<open>\<open>/^\$(LESSON|DIALOGUE|EXERCISE|GRAMMAR|CHAT)\s*:/.test(s)\<close>.\<close>

definition testMarkerColon :: "string \<Rightarrow> bool" where
  "testMarkerColon s =
     list_ex (\<lambda>w. startsWith s (''$'' @ w)
                  \<and> startsWith (dropWhile isSpace (drop (length (''$'' @ w)) s)) '':'')
       [''LESSON'', ''DIALOGUE'', ''EXERCISE'', ''GRAMMAR'', ''CHAT'']"

text \<open>A number in a template literal: its decimal digits.\<close>

function showNat :: "nat \<Rightarrow> string" where
  "showNat n =
     (if n < 10 then [char_of (48 + n)] else showNat (n div 10) @ [char_of (48 + n mod 10)])"
  by pat_completeness auto
termination
  by (relation "measure id") auto

declare showNat.simps [simp del]

text \<open>\<open>[...VALID_GEMINI_VOICES].slice(0, 5).join(", ")\<close> inside the message.\<close>

definition unknownVoiceMessage :: "string \<Rightarrow> string" where
  \<open>unknownVoiceMessage voiceName =
     ''Unknown Gemini voice: "'' @ voiceName @ ''". Valid voices: ''
       @ joinWith '', '' (take 5 VALID_GEMINI_VOICES) @ ''...''\<close>

definition vocabPairMessage :: string where
  "vocabPairMessage = ''VOCAB must be followed immediately by VOCAB_T (pair).''"

subsection \<open>The state of the scan\<close>

text \<open>
  The local variables of \<open>lintModuleText\<close> other than \<open>diags\<close>. The array \<open>diags\<close>
  is only ever appended to, so every step returns the diagnostics it pushes, in order,
  next to the new state. A pending slot \<open>{line}\<close> is the line it holds.
\<close>

record LintState =
  sawModuleMarker :: bool
  sawAnySectionMarker :: bool
  inHeader :: bool
  lintActivity :: "ActivityKind option"
  currentLessonLine :: "nat option"
  seenHeader :: "string \<rightharpoonup> nat"
  seenVoiceSpeaker :: "string \<rightharpoonup> (nat \<times> string)"
  lastDialogueHadLine :: bool
  pendingVocabWord :: "nat option"
  pendingExercisePrompt :: "nat option"
  pendingExerciseExample :: "nat option"

definition lintInit :: LintState where
  "lintInit =
     \<lparr> sawModuleMarker = False, sawAnySectionMarker = False, inHeader = True,
       lintActivity = None, currentLessonLine = None, seenHeader = Map.empty,
       seenVoiceSpeaker = Map.empty, lastDialogueHadLine = False, pendingVocabWord = None,
       pendingExercisePrompt = None, pendingExerciseExample = None \<rparr>"

text \<open>Truthiness of an optional number: \<open>undefined\<close>, \<open>null\<close> and \<open>0\<close> are falsy.\<close>

definition truthyNum :: "nat option \<Rightarrow> bool" where
  "truthyNum x = (case x of None \<Rightarrow> False | Some n \<Rightarrow> n \<noteq> 0)"

definition kindOfMarker :: "string \<Rightarrow> ActivityKind option" where
  "kindOfMarker marker =
     (if marker = ''DIALOGUE'' then Some DIALOGUE
      else if marker = ''EXERCISE'' then Some EXERCISE
      else if marker = ''GRAMMAR'' then Some GRAMMAR
      else if marker = ''CHAT'' then Some CHAT
      else None)"

subsection \<open>Column 0\<close>

definition lintIndent :: "nat \<Rightarrow> string \<Rightarrow> Diagnostic list" where
  "lintIndent lineNo raw =
     (if raw \<noteq> [] \<and> (hd raw = CHR '' '' \<or> hd raw = CHR 0x09) then
        (let t = trimStart raw in
         if startsWith t ''$'' then
           [push SevError lineNo
              ''Section marker must start at column 0 (no leading whitespace).''
              ''section-indent'']
         else if testFieldPrefix t then
           [push SevError lineNo
              ''Field must start at column 0 (no leading whitespace).''
              ''field-indent'']
         else [])
      else [])"

subsection \<open>Section markers\<close>

definition lintMarker :: "nat \<Rightarrow> string \<Rightarrow> LintState \<Rightarrow> Diagnostic list \<times> LintState" where
  \<open>lintMarker lineNo trimmedEnd st =
     (let st0 = st\<lparr> sawAnySectionMarker := True \<rparr>;
          d1 = (if testMarkerColon trimmedEnd then
                  [push SevError lineNo
                     ''Section markers must not use a colon (use `$LESSON Title`, not `$LESSON: Title`).''
                     ''section-colon'']
                else [])
      in case matchMarker trimmedEnd of
           None \<Rightarrow>
             (d1 @ [push SevWarning lineNo ''Unrecognized section marker format.'' ''section-format''],
              st0)
         | Some (marker, _) \<Rightarrow>
             (let d2 = (if marker \<notin> set sectionNames then
                          [push SevWarning lineNo (''Unknown section marker: $'' @ marker)
                             ''section-unknown'']
                        else []);
                  d3 = (case pendingVocabWord st0 of
                          None \<Rightarrow> []
                        | Some l \<Rightarrow> [push SevWarning l vocabPairMessage ''vocab-missing-vocab_t'']);
                  st1 = st0\<lparr> pendingVocabWord := None \<rparr>
              in if marker = ''MODULE'' then
                   (d1 @ d2 @ d3,
                    st1\<lparr> sawModuleMarker := True, inHeader := True, lintActivity := None \<rparr>)
                 else if marker = ''LESSON'' then
                   (d1 @ d2 @ d3,
                    st1\<lparr> inHeader := False, lintActivity := None,
                         currentLessonLine := Some lineNo \<rparr>)
                 else if kindOfMarker marker \<noteq> None then
                   (d1 @ d2 @ d3
                      @ (if \<not> truthyNum (currentLessonLine st1) then
                           [push SevWarning lineNo
                              (''Found $'' @ marker
                                 @ '' before any $LESSON; parser will create a "Default Lesson".'')
                              ''implicit-lesson'']
                         else []),
                    st1\<lparr> inHeader := False, lintActivity := kindOfMarker marker,
                         lastDialogueHadLine := False, pendingVocabWord := None,
                         pendingExercisePrompt := None, pendingExerciseExample := None \<rparr>)
                 else (d1 @ d2 @ d3, st1)))\<close>

subsection \<open>The example marker\<close>

definition lintExample :: "nat \<Rightarrow> LintState \<Rightarrow> Diagnostic list \<times> LintState" where
  "lintExample lineNo st =
     (if lintActivity st \<noteq> Some EXERCISE then
        ([push SevWarning lineNo ''EXAMPLE marker is only meaningful inside $EXERCISE.''
            ''example-outside-exercise''], st)
      else ([], st\<lparr> pendingExerciseExample := Some lineNo \<rparr>))"

subsection \<open>Fields in the module header\<close>

text \<open>The checks on \<open>VOICE_SPEAKER: SpeakerName = VoiceName | Optional prompt\<close>.\<close>

definition lintVoiceSpeaker :: "nat \<Rightarrow> string \<Rightarrow> LintState \<Rightarrow> Diagnostic list \<times> LintState" where
  \<open>lintVoiceSpeaker lineNo val st =
     (let d0 = [push SevWarning lineNo
                  ''VOICE_SPEAKER is deprecated; use VOICE: SpeakerId | Display Name | VoiceName | Optional prompt.''
                  ''voice_speaker-deprecated'']
      in case matchSpeaker val of
           None \<Rightarrow>
             (d0 @ [push SevError lineNo
                      ''VOICE_SPEAKER must be `VOICE_SPEAKER: SpeakerName = VoiceName | Optional prompt`.''
                      ''voice_speaker-format''],
              st)
         | Some (g1, g2, _) \<Rightarrow>
             (let speakerName = trim g1;
                  voiceName = trim g2;
                  d1 = (if \<not> idNoSpacesRe speakerName then
                          [push SevWarning lineNo
                             (''VOICE_SPEAKER label must be alnum only (no spaces): "'' @ speakerName @ ''"'')
                             ''voice_speaker-label'']
                        else []);
                  d2 = (if \<not> idNoSpacesRe voiceName then
                          [push SevWarning lineNo
                             (''Voice name must be alnum only (no spaces): "'' @ voiceName @ ''"'')
                             ''voice_name'']
                        else []);
                  d3 = (if voiceName \<notin> set VALID_GEMINI_VOICES then
                          [push SevError lineNo (unknownVoiceMessage voiceName) ''voice-invalid'']
                        else []);
                  key = toLowerCase speakerName;
                  prev = seenVoiceSpeaker st key;
                  d4 = (case prev of
                          Some (prevLine, original) \<Rightarrow>
                            [push SevWarning lineNo
                               (''Duplicate VOICE_SPEAKER mapping for "'' @ original
                                  @ ''" (previous at L'' @ showNat prevLine @ '').'')
                               ''voice_speaker-dup'']
                        | None \<Rightarrow> []);
                  st' = (case prev of
                           Some _ \<Rightarrow> st
                         | None \<Rightarrow>
                             st\<lparr> seenVoiceSpeaker := (seenVoiceSpeaker st)(key \<mapsto> (lineNo, speakerName)) \<rparr>);
                  d5 = (case prev of
                          Some (prevLine, original) \<Rightarrow>
                            (if original \<noteq> speakerName then
                               [push SevWarning lineNo
                                  (''VOICE_SPEAKER label casing differs ("'' @ original @ ''" vs "''
                                     @ speakerName @ ''"). Use consistent casing.'')
                                  ''voice_speaker-case'']
                             else [])
                        | None \<Rightarrow> [])
              in (d0 @ d1 @ d2 @ d3 @ d4 @ d5, st')))\<close>

text \<open>The checks on \<open>VOICE: SpeakerId | Display Name | VoiceName | Optional prompt\<close>.\<close>

definition lintVoice :: "nat \<Rightarrow> string \<Rightarrow> Diagnostic list" where
  \<open>lintVoice lineNo val =
     (let parts = map trim (splitPipe val) in
      if length parts < 3 then
        [push SevError lineNo
           ''VOICE must be `VOICE: SpeakerId | Display Name | VoiceName | Optional prompt`.''
           ''voice-format'']
      else
        (let speakerId = parts ! 0; displayName = parts ! 1; voiceName = parts ! 2 in
         (if \<not> idNoSpacesRe speakerId then
            [push SevWarning lineNo
               (''VOICE speakerId must be alnum/_ only (no spaces): "'' @ speakerId @ ''"'')
               ''voice-speaker-id'']
          else [])
         @ (if displayName = [] then
              [push SevWarning lineNo
                 ''VOICE display name is empty; provide a display name for readable speaker labels.''
                 ''voice-display-empty'']
            else [])
         @ (if \<not> idNoSpacesRe voiceName then
              [push SevWarning lineNo
                 (''Voice name must be alnum/_ only (no spaces): "'' @ voiceName @ ''"'')
                 ''voice_name'']
            else [])
         @ (if voiceName \<notin> set VALID_GEMINI_VOICES then
              [push SevError lineNo (unknownVoiceMessage voiceName) ''voice-invalid'']
            else [])))\<close>

text \<open>The checks on the four single-voice fields.\<close>

definition lintSingleVoice :: "nat \<Rightarrow> string \<Rightarrow> Diagnostic list" where
  \<open>lintSingleVoice lineNo val =
     (case matchVoice val of
        None \<Rightarrow> []
      | Some (g1, _) \<Rightarrow>
          (let voiceName = trim g1 in
           (if \<not> idNoSpacesRe voiceName then
              [push SevWarning lineNo
                 (''Voice name must be alnum only (no spaces): "'' @ voiceName @ ''"'')
                 ''voice_name'']
            else [])
           @ (if voiceName \<notin> set VALID_GEMINI_VOICES then
                [push SevError lineNo (unknownVoiceMessage voiceName) ''voice-invalid'']
              else [])))\<close>

text \<open>Unknown and duplicate header fields; \<open>seenHeader[field] = lineNo\<close>.\<close>

definition lintHeaderKnown :: "nat \<Rightarrow> string \<Rightarrow> LintState \<Rightarrow> Diagnostic list \<times> LintState" where
  "lintHeaderKnown lineNo field st =
     (if field \<notin> set headerFields then
        ([push SevWarning lineNo (''Unknown header field: '' @ field) ''unknown-header-field''], st)
      else if field \<noteq> ''VOICE_SPEAKER'' \<and> field \<noteq> ''VOICE'' then
        ((if truthyNum (seenHeader st field) then
            [push SevWarning lineNo (''Duplicate header field: '' @ field) ''dup-header-field'']
          else []),
         st\<lparr> seenHeader := (seenHeader st)(field \<mapsto> lineNo) \<rparr>)
      else ([], st))"

text \<open>The branch \<open>inHeader && !currentLessonLine && !currentActivity\<close>.\<close>

definition lintHeaderField :: "nat \<Rightarrow> string \<Rightarrow> string \<Rightarrow> LintState \<Rightarrow> Diagnostic list \<times> LintState" where
  "lintHeaderField lineNo field val st =
     (let (da, st1) = lintHeaderKnown lineNo field st;
          (db, st2) = (if field = ''VOICE_SPEAKER'' then lintVoiceSpeaker lineNo val st1
                       else ([], st1));
          dc = (if field = ''VOICE'' then lintVoice lineNo val else []);
          dd = (if field \<in> set voiceFields \<and> field \<noteq> ''VOICE_SPEAKER'' \<and> field \<noteq> ''VOICE''
                then lintSingleVoice lineNo val else [])
      in (da @ db @ dc @ dd, st2))"

subsection \<open>Fields inside and outside an activity\<close>

definition allowedFields :: "ActivityKind \<Rightarrow> string list" where
  "allowedFields k =
     (case k of
        DIALOGUE \<Rightarrow> dialogueFields
      | EXERCISE \<Rightarrow> exerciseFields
      | CHAT \<Rightarrow> chatFields
      | GRAMMAR \<Rightarrow> grammarFields)"

definition lintActivityField :: "nat \<Rightarrow> string \<Rightarrow> ActivityKind \<Rightarrow> Diagnostic list" where
  \<open>lintActivityField lineNo field k =
     (if field \<notin> set (allowedFields k) then
        (if k = GRAMMAR \<and> field = ''IMAGE'' then
           [push SevWarning lineNo
              ''IMAGE inside $GRAMMAR is not in the formal grammar and is ignored by lc_parser. Use markdown image syntax `![alt](file.png)`.''
              ''grammar-image-ignored'']
         else
           [push SevWarning lineNo
              (''Field '' @ field @ '' is not expected inside $'' @ kindName k @ ''.'')
              ''field-unexpected''])
      else [])
     @ (if k = GRAMMAR \<and> field \<noteq> ''INTRO'' then
          [push SevWarning lineNo
             (''Line looks like a field ('' @ field
                @ '':) inside $GRAMMAR. lc_parser will likely NOT include it in markdown content.'')
             ''grammar-field-swallowed'']
        else [])\<close>

definition lintOutsideField :: "nat \<Rightarrow> string \<Rightarrow> LintState \<Rightarrow> Diagnostic list" where
  "lintOutsideField lineNo field st =
     (if \<not> sawModuleMarker st \<and> field \<in> set headerFields then
        [push SevWarning lineNo
           (''Header field '' @ field @ '' appears before $MODULE. Add a $MODULE header.'')
           ''header-before-module'']
      else
        [push SevWarning lineNo
           (''Field '' @ field @ '' appears outside an activity; it will likely be ignored.'')
           ''field-outside-activity''])"

subsection \<open>Structural checks\<close>

definition lintDialogueStructure :: "nat \<Rightarrow> string \<Rightarrow> LintState \<Rightarrow> Diagnostic list \<times> LintState" where
  "lintDialogueStructure lineNo field st =
     (let st1 = (if field = ''LINE'' then st\<lparr> lastDialogueHadLine := True \<rparr> else st);
          d1 = (if field = ''LINE_T'' \<and> \<not> lastDialogueHadLine st1 then
                  [push SevWarning lineNo
                     ''LINE_T appears without a preceding LINE in the current dialogue context.''
                     ''line_t-without-line'']
                else []);
          d2 = (if field = ''VOCAB'' then
                  (case pendingVocabWord st1 of
                     None \<Rightarrow> []
                   | Some l \<Rightarrow> [push SevWarning l vocabPairMessage ''vocab-missing-vocab_t''])
                else []);
          st2 = (if field = ''VOCAB'' then st1\<lparr> pendingVocabWord := Some lineNo \<rparr> else st1);
          d3 = (if field = ''VOCAB_T'' \<and> pendingVocabWord st2 = None then
                  [push SevWarning lineNo ''VOCAB_T appears without a preceding VOCAB.''
                     ''vocab_t-without-vocab'']
                else []);
          st3 = (if field = ''VOCAB_T'' then st2\<lparr> pendingVocabWord := None \<rparr> else st2);
          d4 = (if field = ''SPEAKER'' \<or> field = ''LINE'' then
                  (case pendingVocabWord st3 of
                     None \<Rightarrow> []
                   | Some l \<Rightarrow> [push SevWarning l vocabPairMessage ''vocab-missing-vocab_t''])
                else []);
          st4 = (if (field = ''SPEAKER'' \<or> field = ''LINE'') \<and> pendingVocabWord st3 \<noteq> None
                 then st3\<lparr> pendingVocabWord := None \<rparr> else st3)
      in (d1 @ d2 @ d3 @ d4, st4))"

definition lintExerciseStructure :: "nat \<Rightarrow> string \<Rightarrow> string \<Rightarrow> LintState \<Rightarrow> Diagnostic list \<times> LintState" where
  "lintExerciseStructure lineNo field val st =
     (let st1 = (if field = ''PROMPT'' then st\<lparr> pendingExercisePrompt := Some lineNo \<rparr> else st);
          d1 = (if field = ''RESPONSE'' \<and> pendingExercisePrompt st1 = None then
                  [push SevWarning lineNo ''RESPONSE appears before PROMPT.''
                     ''response-before-prompt'']
                else []);
          d2 = (if field = ''PROMPT'' \<and> val = [] then
                  [push SevWarning lineNo ''PROMPT is empty.'' ''empty-prompt'']
                else []);
          d3 = (if field = ''RESPONSE'' \<and> val = [] then
                  [push SevWarning lineNo ''RESPONSE is empty.'' ''empty-response'']
                else []);
          st2 = (if field = ''RESPONSE'' then st1\<lparr> pendingExercisePrompt := None \<rparr> else st1);
          st3 = (if field = ''PROMPT'' \<and> pendingExerciseExample st2 \<noteq> None
                 then st2\<lparr> pendingExerciseExample := None \<rparr> else st2)
      in (d1 @ d2 @ d3, st3))"

text \<open>A field line: \<open>field = fm[1]\<close>, \<open>val = (fm[2] ?? "").trim()\<close>.\<close>

definition lintField :: "nat \<Rightarrow> string \<Rightarrow> string \<Rightarrow> LintState \<Rightarrow> Diagnostic list \<times> LintState" where
  "lintField lineNo field val st =
     (let (dctx, st1) =
            (if inHeader st \<and> \<not> truthyNum (currentLessonLine st) \<and> lintActivity st = None then
               lintHeaderField lineNo field val st
             else (case lintActivity st of
                     Some k \<Rightarrow> (lintActivityField lineNo field k, st)
                   | None \<Rightarrow> (lintOutsideField lineNo field st, st)));
          (dstr, st2) =
            (if lintActivity st1 = Some DIALOGUE then lintDialogueStructure lineNo field st1
             else if lintActivity st1 = Some EXERCISE then lintExerciseStructure lineNo field val st1
             else ([], st1))
      in (dctx @ dstr, st2))"

subsection \<open>Content lines, the loop, the end of the file\<close>

definition lintRaw :: "nat \<Rightarrow> LintState \<Rightarrow> Diagnostic list" where
  "lintRaw lineNo st =
     (case lintActivity st of
        Some GRAMMAR \<Rightarrow> []
      | Some k \<Rightarrow>
          [push SevWarning lineNo
             (''Unstructured content line inside $'' @ kindName k
                @ ''. Did you forget a FIELD: prefix?'')
             ''raw-content'']
      | None \<Rightarrow>
          [push SevWarning lineNo
             ''Content line appears outside any activity; it will be ignored.''
             ''content-outside''])"

text \<open>The body of the loop for the line \<open>raw\<close> with number \<open>lineNo\<close>.\<close>

definition lintLine :: "nat \<Rightarrow> string \<Rightarrow> LintState \<Rightarrow> Diagnostic list \<times> LintState" where
  "lintLine lineNo raw st =
     (let trimmedEnd = trimEnd raw; trimmed = trim trimmedEnd in
      if trimmed = [] then ([], st)
      else if startsWith trimmed ''#'' then ([], st)
      else
        (let d0 = lintIndent lineNo raw;
             (d, st') =
               (if startsWith trimmedEnd ''$'' then lintMarker lineNo trimmedEnd st
                else if exampleMarker \<noteq> [] \<and> trimmed = exampleMarker then lintExample lineNo st
                else (case matchField trimmedEnd of
                        Some (field, v) \<Rightarrow> lintField lineNo field (trim v) st
                      | None \<Rightarrow> (lintRaw lineNo st, st)))
         in (d0 @ d, st')))"

fun lintLines :: "nat \<Rightarrow> string list \<Rightarrow> LintState \<Rightarrow> Diagnostic list \<times> LintState" where
  "lintLines i [] st = ([], st)"
| "lintLines i (raw # rest) st =
     (let (d, st1) = lintLine (i + 1) raw st;
          (ds, st2) = lintLines (i + 1) rest st1
      in (d @ ds, st2))"

definition lintEof :: "LintState \<Rightarrow> Diagnostic list" where
  \<open>lintEof st =
     (case pendingVocabWord st of
        None \<Rightarrow> []
      | Some l \<Rightarrow> [push SevWarning l vocabPairMessage ''vocab-missing-vocab_t''])
     @ (case pendingExerciseExample st of
          None \<Rightarrow> []
        | Some l \<Rightarrow>
            [push SevWarning l
               ''EXAMPLE marker must be immediately followed by an exercise item (PROMPT...).''
               ''example-not-applied''])
     @ (if \<not> sawAnySectionMarker st then
          [push SevError 1
             ''No section markers found. A .module should contain at least `$MODULE` and `$LESSON`/activities.''
             ''no-sections'']
        else [])
     @ (if \<not> sawModuleMarker st then
          [push SevError 1 ''Missing `$MODULE` header.'' ''missing-module'']
        else
          (if \<not> truthyNum (seenHeader st ''DIOCO_DOC_ID'') then
             [push SevError 1 ''Missing required header field: DIOCO_DOC_ID''
                ''missing-dioco-doc-id'']
           else [])
          @ (if \<not> truthyNum (seenHeader st ''TITLE'') then
               [push SevError 1 ''Missing required header field: TITLE'' ''missing-title'']
             else [])
          @ (if \<not> truthyNum (seenHeader st ''TARGET_LANG_G'') then
               [push SevError 1 ''Missing required header field: TARGET_LANG_G''
                  ''missing-target-lang'']
             else [])
          @ (if \<not> truthyNum (seenHeader st ''HOME_LANG_G'')
                \<and> \<not> truthyNum (seenHeader st ''USER_LANG_G'') then
               [push SevError 1
                  ''Missing required header field: HOME_LANG_G (or legacy USER_LANG_G)''
                  ''missing-home-lang'']
             else []))\<close>

text \<open>The diagnostics in the order they are pushed.\<close>

definition lintCollect :: "string \<Rightarrow> Diagnostic list" where
  "lintCollect input =
     (let (ds, st) = lintLines 0 (splitLines input) lintInit in ds @ lintEof st)"

subsection \<open>The final sort\<close>

text \<open>
  The comparator given to \<open>diags.sort\<close>. It orders the diagnostics by severity, then
  by line, so the sort, which is stable, returns what a stable insertion by this
  comparator returns.
\<close>

definition compareDiag :: "Diagnostic \<Rightarrow> Diagnostic \<Rightarrow> int" where
  "compareDiag a b =
     (if dSeverity a = dSeverity b then int (dLine a) - int (dLine b)
      else if dSeverity a = SevError then - 1
      else 1)"

fun insertDiag :: "Diagnostic \<Rightarrow> Diagnostic list \<Rightarrow> Diagnostic list" where
  "insertDiag x [] = [x]"
| "insertDiag x (y # ys) =
     (if compareDiag x y \<le> 0 then x # y # ys else y # insertDiag x ys)"

definition sortDiags :: "Diagnostic list \<Rightarrow> Diagnostic list" where
  "sortDiags ds = foldr insertDiag ds []"

definition lintModuleText :: "string \<Rightarrow> Diagnostic list" where
  "lintModuleText input = sortDiags (lintCollect input)"

section \<open>Notions used to state the properties\<close>

text \<open>
  The four mandatory header slots of the module under construction, the field names
  that fill each of them, and the name the final validation gives in its message.
\<close>

datatype HeaderSlot = DocIdSlot | TitleSlot | TargetLangSlot | HomeLangSlot

fun slotFields :: "HeaderSlot \<Rightarrow> string list" where
  "slotFields DocIdSlot = [''DIOCO_DOC_ID'']"
| "slotFields TitleSlot = [''TITLE'']"
| "slotFields TargetLangSlot = [''TARGET_LANG_G'']"
| "slotFields HomeLangSlot = [''HOME_LANG_G'', ''USER_LANG_G'']"

fun slotValue :: "HeaderSlot \<Rightarrow> PartialModule \<Rightarrow> string option" where
  "slotValue DocIdSlot m = pm_diocoDocId m"
| "slotValue TitleSlot m = pm_title m"
| "slotValue TargetLangSlot m = pm_targetLang_G m"
| "slotValue HomeLangSlot m = pm_homeLang_G m"

fun slotName :: "HeaderSlot \<Rightarrow> string" where
  "slotName DocIdSlot = ''DIOCO_DOC_ID''"
| "slotName TitleSlot = ''TITLE''"
| "slotName TargetLangSlot = ''TARGET_LANG_G''"
| "slotName HomeLangSlot = ''HOME_LANG_G''"

definition missingError :: "HeaderSlot \<Rightarrow> error" where
  "missingError s = Error (''Missing '' @ slotName s @ '' in .module file'')"

text \<open>
  A line is a field line for a slot when the parser's field expression accepts it with
  one of the slot's names; a slot is absent from a text when no line of the text is
  such a line, and recorded when the parser ends with a non-empty value in it.
\<close>

definition fillsSlot :: "HeaderSlot \<Rightarrow> string \<Rightarrow> bool" where
  "fillsSlot s l =
     (case matchField (trimEnd l) of
        None \<Rightarrow> False
      | Some (f, v) \<Rightarrow> f \<in> set (slotFields s))"

definition slotAbsent :: "HeaderSlot \<Rightarrow> string \<Rightarrow> bool" where
  "slotAbsent s input = (\<not> list_ex (fillsSlot s) (splitLines input))"

definition slotRecorded :: "HeaderSlot \<Rightarrow> string \<Rightarrow> bool" where
  "slotRecorded s input = truthy (slotValue s (ps_module (finalState input)))"

text \<open>
  The ids of the activities of a parsed module, lesson by lesson, and the same for a
  parser state: the lessons already closed, the open lesson, the open activity.
\<close>

definition lessonIds :: "Lesson list \<Rightarrow> string list" where
  "lessonIds ls = concat (map (\<lambda>l. map actId (activities l)) ls)"

definition moduleActivityIds :: "Module \<Rightarrow> string list" where
  "moduleActivityIds m = lessonIds (lessons m)"

definition stateIds :: "ParserState \<Rightarrow> string set" where
  "stateIds st =
     set (lessonIds (pm_lessons (ps_module st)))
     \<union> (case currentLesson st of None \<Rightarrow> {} | Some l \<Rightarrow> set (map actId (activities l)))
     \<union> (case currentActivity st of None \<Rightarrow> {} | Some a \<Rightarrow> {actId a})"

definition lessonOpenIfActivity :: "ParserState \<Rightarrow> bool" where
  "lessonOpenIfActivity st = (currentActivity st = None \<or> currentLesson st \<noteq> None)"

text \<open>The title the parser gives an activity whose marker line has none.\<close>

definition defaultTitle :: "string \<Rightarrow> string" where
  "defaultTitle marker =
     (if marker = ''DIALOGUE'' then ''Dialogue''
      else if marker = ''GRAMMAR'' then ''Grammar''
      else if marker = ''EXERCISE'' then ''Exercise''
      else ''Chat'')"

text \<open>
  The id of the activity a line opens, as the parser derives it: \<open>None\<close> for a line
  that is not an activity marker at column 0.
\<close>

definition markerId :: "string \<Rightarrow> string option" where
  "markerId l =
     (let t = trimEnd l in
      if \<not> startsWith t ''$'' then None
      else (case matchMarker t of
              None \<Rightarrow> None
            | Some (marker, ttl) \<Rightarrow>
                if marker \<in> set activityMarkers
                then Some (generateActivityId marker (orElse ttl (defaultTitle marker)))
                else None))"

text \<open>The keys the indexer has or is about to have: its map and its open block.\<close>

definition idxKeys :: "IndexState \<Rightarrow> string set" where
  "idxKeys st =
     dom (idx_map st) \<union> (case idx_current st of None \<Rightarrow> {} | Some (cid, i) \<Rightarrow> {cid})"

text \<open>
  A field line indented with a space or a tab: what the linter's column-0 check looks
  at.
\<close>

definition indentedField :: "string \<Rightarrow> bool" where
  "indentedField raw =
     (raw \<noteq> [] \<and> (hd raw = CHR '' '' \<or> hd raw = CHR 0x09) \<and> testFieldPrefix (trimStart raw))"

text \<open>
  The state of the linter when it reaches the line of index \<open>i\<close> (line number
  \<open>i + 1\<close>), and the test of its header branch.
\<close>

definition lintStateAt :: "string \<Rightarrow> nat \<Rightarrow> LintState" where
  "lintStateAt input i = snd (lintLines 0 (take i (splitLines input)) lintInit)"




text \<open>
  The order the final sort is to establish between an earlier and a later entry, and
  the key under which two entries are equal for it.
\<close>

definition inOrder :: "Diagnostic \<Rightarrow> Diagnostic \<Rightarrow> bool" where
  "inOrder a b =
     ((dSeverity a = SevError \<and> dSeverity b = SevWarning)
      \<or> (dSeverity a = dSeverity b \<and> dLine a \<le> dLine b))"

definition diagKey :: "Diagnostic \<Rightarrow> Severity \<times> nat" where
  "diagKey d = (dSeverity d, dLine d)"

section \<open>Properties of the content parsers\<close>

lemma startsWith_append_same [simp]: "startsWith (p @ s) p"
  by (simp add: startsWith_def)

subsection \<open>Exercise items\<close>



subsection \<open>Dialogue lines\<close>

lemma dlg_word_then_translation:
  assumes "dl_pendingVocab st = []"
  shows "dlgStep (dlgStep st (''VOCAB:'' @ w)) (''VOCAB_T:'' @ d)
         = st\<lparr> dl_pendingVocab := [(trim w, trim d)], dl_pendingVocabDefinition := None \<rparr>"
  using assms by (simp add: dlgStep_def startsWith_def slice_def setLastDefinition_def)

lemma dlg_translation_then_word:
  assumes "dl_pendingVocab st = []"
  shows "dlgStep (dlgStep st (''VOCAB_T:'' @ d)) (''VOCAB:'' @ w)
         = st\<lparr> dl_pendingVocab := [(trim w, trim d)], dl_pendingVocabDefinition := None \<rparr>"
  using assms by (simp add: dlgStep_def startsWith_def slice_def orEmpty_def)

lemma dlg_no_word_no_pending:
  "list_all (\<lambda>item. \<not> startsWith item ''VOCAB:'') pre \<Longrightarrow> dl_pendingVocab st = []
   \<Longrightarrow> dl_pendingVocab (foldl dlgStep st pre) = []"
proof (induction pre arbitrary: st)
  case Nil
  then show ?case by simp
next
  case (Cons item pre)
  have "dl_pendingVocab (dlgStep st item) = []"
    using Cons.prems by (simp add: dlgStep_def attachVocab_def Let_def)
  then show ?case using Cons by simp
qed

lemma dlg_line_attaches:
  assumes "trim x \<noteq> []" and "dl_pendingVocab st = pv" and "pv \<noteq> []"
  shows "vocab (last (dlgFinish (dlgStep st (''LINE:'' @ x)))) = Some pv"
  using assms
  by (simp add: dlgStep_def dlgFinish_def startsWith_def slice_def attachVocab_def Let_def
        truthy_def lineOf_def)

text \<open>
  The two arrival orders lead to the same state whenever no vocabulary word is waiting
  for its line when the pair arrives.
\<close>

lemma dlg_pair_orders_same_state:
  assumes "dl_pendingVocab st = []"
  shows "foldl dlgStep st [''VOCAB:'' @ w, ''VOCAB_T:'' @ d]
         = foldl dlgStep st [''VOCAB_T:'' @ d, ''VOCAB:'' @ w]"
  using dlg_word_then_translation [OF assms] dlg_translation_then_word [OF assms] by simp

text \<open>
  Claim C1, as the code has it. When no vocabulary entry is pending, that is pushed by
  an earlier vocab-word tag and not yet attached to a line, at the point where a
  vocab-word tag and its adjacent vocab-translation tag arrive, both arrival orders
  give the same dialogue lines, whatever follows; and when a line tag with text follows
  the pair, that line carries exactly the pair (word, definition), in both orders.
\<close>

theorem vocab_pair_order:
  assumes "dl_pendingVocab (foldl dlgStep dlgInit pre) = []"
  shows "parseDialogueLines (pre @ [''VOCAB:'' @ w, ''VOCAB_T:'' @ d] @ post)
         = parseDialogueLines (pre @ [''VOCAB_T:'' @ d, ''VOCAB:'' @ w] @ post)
       \<and> (trim x \<noteq> [] \<longrightarrow>
            vocab (last (parseDialogueLines
                     (pre @ [''VOCAB:'' @ w, ''VOCAB_T:'' @ d] @ [''LINE:'' @ x])))
              = Some [(trim w, trim d)]
          \<and> vocab (last (parseDialogueLines
                     (pre @ [''VOCAB_T:'' @ d, ''VOCAB:'' @ w] @ [''LINE:'' @ x])))
              = Some [(trim w, trim d)])"
proof -
  let ?st = "foldl dlgStep dlgInit pre"
  let ?st' = "?st\<lparr> dl_pendingVocab := [(trim w, trim d)], dl_pendingVocabDefinition := None \<rparr>"
  have a: "foldl dlgStep ?st [''VOCAB:'' @ w, ''VOCAB_T:'' @ d] = ?st'"
    using dlg_word_then_translation [OF assms] by simp
  have b: "foldl dlgStep ?st [''VOCAB_T:'' @ d, ''VOCAB:'' @ w] = ?st'"
    using dlg_translation_then_word [OF assms] by simp
  have same: "parseDialogueLines (pre @ [''VOCAB:'' @ w, ''VOCAB_T:'' @ d] @ q)
              = parseDialogueLines (pre @ [''VOCAB_T:'' @ d, ''VOCAB:'' @ w] @ q)" for q
    unfolding parseDialogueLines_def foldl_append a b ..
  have carried: "vocab (last (parseDialogueLines
                   (pre @ [''VOCAB:'' @ w, ''VOCAB_T:'' @ d] @ [''LINE:'' @ x])))
                 = Some [(trim w, trim d)]" if "trim x \<noteq> []"
    unfolding parseDialogueLines_def foldl_append a
    using dlg_line_attaches [OF that, of ?st' "[(trim w, trim d)]"] by simp
  show ?thesis
    using same [of post] same [of "[''LINE:'' @ x]"] carried by simp
qed

text \<open>
  An instance: a body with two pairs, the first already attached to its line when the
  second arrives.
\<close>

theorem vocab_pair_order_witness:
  "dl_pendingVocab (foldl dlgStep dlgInit [''VOCAB:a'', ''VOCAB_T:b'', ''LINE:y'']) = []
   \<and> parseDialogueLines
       [''VOCAB:a'', ''VOCAB_T:b'', ''LINE:y'', ''VOCAB:w'', ''VOCAB_T:d'', ''LINE:x'', ''LINE_T:z'']
     = parseDialogueLines
       [''VOCAB:a'', ''VOCAB_T:b'', ''LINE:y'', ''VOCAB_T:d'', ''VOCAB:w'', ''LINE:x'', ''LINE_T:z'']
   \<and> vocab (last (parseDialogueLines
              [''VOCAB:a'', ''VOCAB_T:b'', ''LINE:y'', ''VOCAB:w'', ''VOCAB_T:d'', ''LINE:x'']))
     = Some [(''w'', ''d'')]
   \<and> vocab (last (parseDialogueLines
              [''VOCAB:a'', ''VOCAB_T:b'', ''LINE:y'', ''VOCAB_T:d'', ''VOCAB:w'', ''LINE:x'']))
     = Some [(''w'', ''d'')]"
proof -
  have t: "trim ''x'' = ''x''" "trim ''w'' = ''w''" "trim ''d'' = ''d''"
    by (simp_all add: trim_def trimStart_def trimEnd_def isSpace_def)
  have h: "dl_pendingVocab (foldl dlgStep dlgInit [''VOCAB:a'', ''VOCAB_T:b'', ''LINE:y'']) = []"
    by code_simp
  have "parseDialogueLines
          ([''VOCAB:a'', ''VOCAB_T:b'', ''LINE:y'']
             @ [''VOCAB:'' @ ''w'', ''VOCAB_T:'' @ ''d''] @ [''LINE:x'', ''LINE_T:z''])
        = parseDialogueLines
          ([''VOCAB:a'', ''VOCAB_T:b'', ''LINE:y'']
             @ [''VOCAB_T:'' @ ''d'', ''VOCAB:'' @ ''w''] @ [''LINE:x'', ''LINE_T:z''])"
    and "vocab (last (parseDialogueLines
           ([''VOCAB:a'', ''VOCAB_T:b'', ''LINE:y'']
              @ [''VOCAB:'' @ ''w'', ''VOCAB_T:'' @ ''d''] @ [''LINE:'' @ ''x''])))
         = Some [(''w'', ''d'')]"
    and "vocab (last (parseDialogueLines
           ([''VOCAB:a'', ''VOCAB_T:b'', ''LINE:y'']
              @ [''VOCAB_T:'' @ ''d'', ''VOCAB:'' @ ''w''] @ [''LINE:'' @ ''x''])))
         = Some [(''w'', ''d'')]"
    using vocab_pair_order [OF h, of "''w''" "''d''" "[''LINE:x'', ''LINE_T:z'']" "''x''"]
    by (simp_all only: t) simp_all
  then show ?thesis using h by simp
qed

text \<open>
  The claim as the specification words it fails when an earlier vocabulary word is
  still pending: the translation that arrives before its word goes to the earlier
  word. With the pair (\<open>w\<close>, \<open>d\<close>) after the pending pair (\<open>a\<close>, \<open>d1\<close>), and
  with the pair after the pending word \<open>a\<close> alone, the line carries (\<open>w\<close>, \<open>d\<close>)
  in the word-first order and not in the translation-first order.
\<close>

theorem vocab_pair_order_pending_counterexample:
  "map vocab (parseDialogueLines
      [''VOCAB:a'', ''VOCAB_T:d1'', ''VOCAB:w'', ''VOCAB_T:d'', ''LINE:x''])
     = [Some [(''a'', ''d1''), (''w'', ''d'')]]
   \<and> map vocab (parseDialogueLines
      [''VOCAB:a'', ''VOCAB_T:d1'', ''VOCAB_T:d'', ''VOCAB:w'', ''LINE:x''])
     = [Some [(''a'', ''d''), (''w'', [])]]
   \<and> map vocab (parseDialogueLines [''VOCAB:a'', ''NOTES:n'', ''VOCAB:w'', ''VOCAB_T:d'', ''LINE:x''])
     = [Some [(''a'', []), (''w'', ''d'')]]
   \<and> map vocab (parseDialogueLines [''VOCAB:a'', ''NOTES:n'', ''VOCAB_T:d'', ''VOCAB:w'', ''LINE:x''])
     = [Some [(''a'', ''d''), (''w'', [])]]"
  by code_simp

text \<open>
  Claim C4, as the code has it. Whenever a vocabulary entry is pending, a
  vocab-translation tag writes the definition of the most recent one, also over a
  definition it already has, and nothing is held back; only with no entry pending is
  the value held, and the next vocab-word tag then takes it as its definition.
\<close>

theorem vocab_translation_fills_last_pending:
  "(dl_pendingVocab st \<noteq> [] \<longrightarrow>
      dlgStep st (''VOCAB_T:'' @ d)
        = st\<lparr> dl_pendingVocab := butlast (dl_pendingVocab st)
                                    @ [(fst (last (dl_pendingVocab st)), trim d)] \<rparr>)
   \<and> (dl_pendingVocab st = [] \<longrightarrow>
        dlgStep st (''VOCAB_T:'' @ d) = st\<lparr> dl_pendingVocabDefinition := Some (trim d) \<rparr>
      \<and> dlgStep (dlgStep st (''VOCAB_T:'' @ d)) (''VOCAB:'' @ w)
          = st\<lparr> dl_pendingVocab := [(trim w, trim d)], dl_pendingVocabDefinition := None \<rparr>)"
  using dlg_translation_then_word [of st d w]
  by (simp add: dlgStep_def startsWith_def slice_def setLastDefinition_def)

theorem vocab_translation_fills_last_pending_witness:
  "dl_pendingVocab (dlgInit\<lparr> dl_pendingVocab := [(''a'', ''old'')] \<rparr>) \<noteq> []
   \<and> dlgStep (dlgInit\<lparr> dl_pendingVocab := [(''a'', ''old'')] \<rparr>) ''VOCAB_T:d''
       = dlgInit\<lparr> dl_pendingVocab := [(''a'', ''d'')] \<rparr>
   \<and> dl_pendingVocab dlgInit = []
   \<and> dlgStep dlgInit ''VOCAB_T:d'' = dlgInit\<lparr> dl_pendingVocabDefinition := Some ''d'' \<rparr>
   \<and> dlgStep (dlgStep dlgInit ''VOCAB_T:d'') ''VOCAB:w''
       = dlgInit\<lparr> dl_pendingVocab := [(''w'', ''d'')], dl_pendingVocabDefinition := None \<rparr>"
proof -
  have t: "trim ''w'' = ''w''" "trim ''d'' = ''d''"
    by (simp_all add: trim_def trimStart_def trimEnd_def isSpace_def)
  have h1: "dl_pendingVocab (dlgInit\<lparr> dl_pendingVocab := [(''a'', ''old'')] \<rparr>) \<noteq> []"
    by simp
  have h2: "dl_pendingVocab dlgInit = []"
    by (simp add: dlgInit_def)
  have filled: "dlgStep (dlgInit\<lparr> dl_pendingVocab := [(''a'', ''old'')] \<rparr>) ''VOCAB_T:d''
                = dlgInit\<lparr> dl_pendingVocab := [(''a'', ''d'')] \<rparr>"
    using h1 vocab_translation_fills_last_pending
                [of "dlgInit\<lparr> dl_pendingVocab := [(''a'', ''old'')] \<rparr>" "''d''" "''w''"]
    by (simp add: t)
  have inst: "dlgStep dlgInit (''VOCAB_T:'' @ ''d'')
                = dlgInit\<lparr> dl_pendingVocabDefinition := Some (trim ''d'') \<rparr>
              \<and> dlgStep (dlgStep dlgInit (''VOCAB_T:'' @ ''d'')) (''VOCAB:'' @ ''w'')
                = dlgInit\<lparr> dl_pendingVocab := [(trim ''w'', trim ''d'')],
                           dl_pendingVocabDefinition := None \<rparr>"
    using h2 vocab_translation_fills_last_pending [of dlgInit "''d''" "''w''"] by blast
  have held: "dlgStep dlgInit ''VOCAB_T:d'' = dlgInit\<lparr> dl_pendingVocabDefinition := Some ''d'' \<rparr>"
    using conjunct1 [OF inst] by (simp add: t)
  have taken: "dlgStep (dlgStep dlgInit ''VOCAB_T:d'') ''VOCAB:w''
               = dlgInit\<lparr> dl_pendingVocab := [(''w'', ''d'')], dl_pendingVocabDefinition := None \<rparr>"
    using conjunct2 [OF inst] by (simp add: t)
  show ?thesis
    using h1 h2 filled held taken by blast
qed

text \<open>
  The claim as the specification words it fails: here the pending entry \<open>a\<close> already
  has the definition \<open>d1\<close>, and the second translation tag replaces it instead of
  being held for the word \<open>b\<close>, which is left without a definition.
\<close>

theorem vocab_translation_held_when_filled_counterexample:
  "dl_pendingVocab (foldl dlgStep dlgInit [''VOCAB:a'', ''VOCAB_T:d1'']) = [(''a'', ''d1'')]
   \<and> dl_pendingVocabDefinition
        (foldl dlgStep dlgInit [''VOCAB:a'', ''VOCAB_T:d1'', ''VOCAB_T:d2'']) = None
   \<and> parseDialogueLines [''VOCAB:a'', ''VOCAB_T:d1'', ''VOCAB_T:d2'', ''VOCAB:b'', ''LINE:x'']
     = [\<lparr> speaker = None, lineText = ''x'', translation = [], lineNotes = None,
           vocab = Some [(''a'', ''d2''), (''b'', [])] \<rparr>]"
  by code_simp

section \<open>Properties of the module parser\<close>

lemma matchField_hd:
  assumes "matchField t = Some (f, v)"
  shows "t \<noteq> [] \<and> isFieldChar (hd t)"
proof -
  from assms have "takeWhile isFieldChar t \<noteq> []"
    by (auto simp: matchField_def Let_def split: if_splits)
  then show ?thesis by (cases t) (auto split: if_splits)
qed

lemma fieldChar_facts:
  "isFieldChar c \<Longrightarrow> \<not> isSpace c \<and> c \<noteq> CHR ''#'' \<and> c \<noteq> CHR ''$''"
  by (auto simp: isFieldChar_def isUpperAZ_def isSpace_def)

lemma matchField_not_special:
  assumes "matchField t = Some (f, v)"
  shows "\<not> startsWith (trimStart t) ''#''" and "\<not> startsWith t ''$''" and "t \<noteq> ''EXAMPLE''"
proof -
  from matchField_hd [OF assms] obtain c cs where t: "t = c # cs" and c: "isFieldChar c"
    by (cases t) auto
  from fieldChar_facts [OF c] show "\<not> startsWith (trimStart t) ''#''" "\<not> startsWith t ''$''"
    by (auto simp: t trimStart_def startsWith_def)
  have "matchField ''EXAMPLE'' = None"
    by code_simp
  with assms show "t \<noteq> ''EXAMPLE''"
    by auto
qed

lemma processLine_field:
  assumes "matchField (trimEnd l) = Some (f, v)"
  shows "processLine l st = handleField f v st"
  using matchField_not_special [OF assms] assms by (simp add: processLine_def Let_def)

text \<open>
  Claim C6, as the code has it. When a Grammar activity closes, its content is the
  buffered lines joined with newlines and trimmed. A body line shaped like
  \<open>FIELD: value\<close> is never buffered as it stands: \<open>INTRO\<close> sets the spoken
  introduction, a field name outside the parser's list leaves the buffer alone (the line
  is swallowed), but for the ten dialogue and exercise names the entry
  \<open>FIELD:value\<close> is buffered, and so appears in the content.
\<close>

theorem grammar_field_lines:
  assumes "currentActivity st = Some act" and "kind act = GRAMMAR"
    and "matchField (trimEnd l) = Some (f, v)"
  shows "processLine l st =
           (if f = ''INTRO'' then st\<lparr> currentActivity := Some (act\<lparr> intro := Some v \<rparr>) \<rparr>
            else if f \<in> set bufferedFields
            then st\<lparr> activityContentBuffer := activityContentBuffer st @ [f @ '':'' @ v] \<rparr>
            else st)
       \<and> (currentLesson st = Some les \<longrightarrow>
            finalizeActivity st =
              st\<lparr> currentLesson := Some (les\<lparr> activities := activities les
                       @ [act\<lparr> content :=
                                 Some (trim (joinWith [CHR 0x0A] (activityContentBuffer st))) \<rparr>] \<rparr>),
                  currentActivity := None,
                  activityContentBuffer := [] \<rparr>)"
proof -
  have "processLine l st = handleField f v st"
    by (rule processLine_field [OF assms(3)])
  then have 1: "processLine l st =
           (if f = ''INTRO'' then st\<lparr> currentActivity := Some (act\<lparr> intro := Some v \<rparr>) \<rparr>
            else if f \<in> set bufferedFields
            then st\<lparr> activityContentBuffer := activityContentBuffer st @ [f @ '':'' @ v] \<rparr>
            else st)"
    using assms(1,2) by (simp add: handleField_def handleActivityField_def bufferedFields_def)
  have 2: "finalizeActivity st =
              st\<lparr> currentLesson := Some (les\<lparr> activities := activities les
                       @ [act\<lparr> content :=
                                 Some (trim (joinWith [CHR 0x0A] (activityContentBuffer st))) \<rparr>] \<rparr>),
                  currentActivity := None,
                  activityContentBuffer := [] \<rparr>" if "currentLesson st = Some les"
    using assms(1,2) that by (simp add: finalizeActivity_def parseGrammarContent_def Let_def)
  show ?thesis using 1 2 by blast
qed

theorem grammar_field_lines_witness:
  "currentActivity (initialState\<lparr> currentActivity := Some (baseActivity GRAMMAR ''G'') \<rparr>)
     = Some (baseActivity GRAMMAR ''G'')
   \<and> kind (baseActivity GRAMMAR ''G'') = GRAMMAR
   \<and> matchField (trimEnd ''NOTES: hello'') = Some (''NOTES'', ''hello'')
   \<and> processLine ''NOTES: hello'' (initialState\<lparr> currentActivity := Some (baseActivity GRAMMAR ''G'') \<rparr>)
     = initialState\<lparr> currentActivity := Some (baseActivity GRAMMAR ''G''),
                     activityContentBuffer := [''NOTES:hello''] \<rparr>"
proof -
  let ?st = "initialState\<lparr> currentActivity := Some (baseActivity GRAMMAR ''G'') \<rparr>"
  have h1: "currentActivity ?st = Some (baseActivity GRAMMAR ''G'')" by simp
  have h2: "kind (baseActivity GRAMMAR ''G'') = GRAMMAR" by (simp add: baseActivity_def)
  have h3: "matchField (trimEnd ''NOTES: hello'') = Some (''NOTES'', ''hello'')" by code_simp
  have b: "activityContentBuffer ?st = []" by (simp add: initialState_def)
  have "processLine ''NOTES: hello'' ?st
        = ?st\<lparr> activityContentBuffer := activityContentBuffer ?st @ [''NOTES'' @ '':'' @ ''hello''] \<rparr>"
    using conjunct1 [OF grammar_field_lines [OF h1 h2 h3]]
    by (simp add: bufferedFields_def)
  then show ?thesis using h1 h2 h3 b by simp
qed

text \<open>
  The claim as the specification words it fails: the line \<open>NOTES: hello\<close> of a
  grammar body is not swallowed, it reaches the content as \<open>NOTES:hello\<close>, next
  to the plain line before it; the line \<open>IMAGE: x.png\<close> is swallowed.
\<close>

theorem grammar_field_swallowed_counterexample:
  "map (\<lambda>l. map content (activities l))
     (pm_lessons (ps_module (finalState
        ''$GRAMMAR G\<newline>Some text\<newline>NOTES: hello\<newline>IMAGE: x.png'')))
   = [[Some ''Some text\<newline>NOTES:hello'']]"
  by code_simp

lemma slotValue_other_updates [simp]:
  "slotValue s (m\<lparr> pm_lessons := l \<rparr>) = slotValue s m"
  "slotValue s (m\<lparr> pm_description := x \<rparr>) = slotValue s m"
  "slotValue s (m\<lparr> pm_image := x \<rparr>) = slotValue s m"
  "slotValue s (m\<lparr> pm_ttsPrompt := x \<rparr>) = slotValue s m"
  by (cases s; simp)+

lemma slotValue_own_updates:
  "slotValue s (m\<lparr> pm_diocoDocId := x \<rparr>) = (if s = DocIdSlot then x else slotValue s m)"
  "slotValue s (m\<lparr> pm_title := x \<rparr>) = (if s = TitleSlot then x else slotValue s m)"
  "slotValue s (m\<lparr> pm_targetLang_G := x \<rparr>) = (if s = TargetLangSlot then x else slotValue s m)"
  "slotValue s (m\<lparr> pm_homeLang_G := x \<rparr>) = (if s = HomeLangSlot then x else slotValue s m)"
  by (cases s; simp)+

lemma slot_handleModuleField_eq:
  "slotValue s (ps_module (case handleModuleField f v st of None \<Rightarrow> st | Some st' \<Rightarrow> st'))
   = (if f = ''DIOCO_DOC_ID'' then (if s = DocIdSlot then Some v else slotValue s (ps_module st))
      else if f = ''TITLE'' then (if s = TitleSlot then Some v else slotValue s (ps_module st))
      else if f = ''TARGET_LANG_G'' then (if s = TargetLangSlot then Some v else slotValue s (ps_module st))
      else if f = ''HOME_LANG_G'' \<or> f = ''USER_LANG_G''
        then (if s = HomeLangSlot then Some v else slotValue s (ps_module st))
      else slotValue s (ps_module st))"
  by (simp add: handleModuleField_def Let_def slotValue_own_updates split: option.splits prod.splits)

lemma slot_handleModuleField:
  assumes "f \<notin> set (slotFields s)" and "handleModuleField f v st = Some st'"
  shows "slotValue s (ps_module st') = slotValue s (ps_module st)"
  using slot_handleModuleField_eq [where s = s and f = f and v = v and st = st] assms
  by (cases s) simp_all

lemma ps_module_finalizeActivity [simp]: "ps_module (finalizeActivity st) = ps_module st"
  by (simp add: finalizeActivity_def Let_def split: option.splits)

lemma slot_finalizeLesson [simp]:
  "slotValue s (ps_module (finalizeLesson st)) = slotValue s (ps_module st)"
  by (simp add: finalizeLesson_def split: option.splits)

lemma ps_module_startActivity [simp]: "ps_module (startActivity st k t) = ps_module st"
  by (simp add: startActivity_def Let_def)

lemma slot_handleSectionMarker [simp]:
  "slotValue s (ps_module (handleSectionMarker t st)) = slotValue s (ps_module st)"
  by (simp add: handleSectionMarker_def Let_def split: option.splits)

lemma ps_module_handleActivityField [simp]:
  "ps_module (handleActivityField f v a st) = ps_module st"
  by (simp add: handleActivityField_def)

lemma slot_handleField:
  assumes "f \<notin> set (slotFields s)"
  shows "slotValue s (ps_module (handleField f v st)) = slotValue s (ps_module st)"
  using slot_handleModuleField [OF assms]
  by (auto simp: handleField_def split: option.splits if_splits)

lemma slot_processLine:
  assumes "\<not> fillsSlot s l"
  shows "slotValue s (ps_module (processLine l st)) = slotValue s (ps_module st)"
proof (cases "matchField (trimEnd l)")
  case None
  then show ?thesis by (simp add: processLine_def Let_def)
next
  case (Some fv)
  obtain f v where fv: "fv = (f, v)" by (cases fv)
  with Some assms have nf: "f \<notin> set (slotFields s)" by (simp add: fillsSlot_def)
  show ?thesis
    using Some fv processLine_field [of l f v st] slot_handleField [OF nf] by simp
qed

lemma slot_scan:
  assumes "\<not> list_ex (fillsSlot s) ls"
  shows "slotValue s (ps_module (foldl (\<lambda>st line. processLine line st) st ls))
         = slotValue s (ps_module st)"
  using assms by (induction ls arbitrary: st) (simp_all add: slot_processLine)

lemma slot_absent_None:
  assumes "slotAbsent s input"
  shows "slotValue s (ps_module (finalState input)) = None"
proof -
  have "slotValue s (ps_module initialState) = None"
    by (cases s) (simp_all add: initialState_def)
  with slot_scan [of s "splitLines input" initialState] assms show ?thesis
    by (simp add: finalState_def scanLines_def slotAbsent_def)
qed

text \<open>
  Claim C3. When no line of the text is a field line for one of the four mandatory
  slots, the parser fails; and when that slot is the only one without a recorded
  value, the error names exactly it. The legacy name \<open>USER_LANG_G\<close> is handled as
  \<open>HOME_LANG_G\<close> is, so either fills the home-language slot.
\<close>

theorem missing_header_field:
  assumes "slotAbsent s input"
  shows "(\<exists>e. parseModuleFile input = Inl e)
       \<and> ((\<forall>s'. s' \<noteq> s \<longrightarrow> slotRecorded s' input)
            \<longrightarrow> parseModuleFile input = Inl (missingError s))
       \<and> handleField ''USER_LANG_G'' v st = handleField ''HOME_LANG_G'' v st"
proof -
  have n: "\<not> truthy (slotValue s (ps_module (finalState input)))"
    using slot_absent_None [OF assms] by (simp add: truthy_def)
  have 1: "\<exists>e. parseModuleFile input = Inl e"
    using n by (cases s) (simp_all add: parseModuleFile_def Let_def)
  have 2: "parseModuleFile input = Inl (missingError s)"
    if "\<forall>s'. s' \<noteq> s \<longrightarrow> slotRecorded s' input"
  proof -
    have r: "s' \<noteq> s \<Longrightarrow> truthy (slotValue s' (ps_module (finalState input)))" for s'
      using that by (simp add: slotRecorded_def)
    show ?thesis
      using n r [of DocIdSlot] r [of TitleSlot] r [of TargetLangSlot] r [of HomeLangSlot]
      by (cases s) (simp_all add: parseModuleFile_def Let_def missingError_def)
  qed
  have 3: "handleField ''USER_LANG_G'' v st = handleField ''HOME_LANG_G'' v st"
    by (simp add: handleField_def handleModuleField_def handleActivityField_def
          bufferedFields_def Let_def split: option.splits)
  show ?thesis using 1 2 3 by blast
qed

theorem missing_header_field_witness:
  "slotAbsent HomeLangSlot
     ''$MODULE\<newline>DIOCO_DOC_ID: x\<newline>TITLE: T\<newline>TARGET_LANG_G: fr\<newline>\<newline>$LESSON L1''
   \<and> parseModuleFile
       ''$MODULE\<newline>DIOCO_DOC_ID: x\<newline>TITLE: T\<newline>TARGET_LANG_G: fr\<newline>\<newline>$LESSON L1''
     = Inl (Error ''Missing HOME_LANG_G in .module file'')"
proof -
  let ?input = "''$MODULE\<newline>DIOCO_DOC_ID: x\<newline>TITLE: T\<newline>TARGET_LANG_G: fr\<newline>\<newline>$LESSON L1''"
  have h: "slotAbsent HomeLangSlot ?input" by code_simp
  have r1: "slotRecorded DocIdSlot ?input" by code_simp
  have r2: "slotRecorded TitleSlot ?input" by code_simp
  have r3: "slotRecorded TargetLangSlot ?input" by code_simp
  have r: "\<forall>s'. s' \<noteq> HomeLangSlot \<longrightarrow> slotRecorded s' ?input"
  proof (intro allI impI)
    fix s' assume "s' \<noteq> HomeLangSlot"
    then show "slotRecorded s' ?input" using r1 r2 r3 by (cases s') simp_all
  qed
  have "parseModuleFile ?input = Inl (missingError HomeLangSlot)"
    using missing_header_field [OF h, of "''en''" initialState] r by blast
  then show ?thesis using h by (simp add: missingError_def)
qed

section \<open>Properties of the linter\<close>

subsection \<open>The final sort\<close>

lemma compareDiag_inOrder: "compareDiag a b \<le> 0 \<longleftrightarrow> inOrder a b"
  by (cases "dSeverity a"; cases "dSeverity b") (auto simp: compareDiag_def inOrder_def)

lemma inOrder_total: "\<not> inOrder a b \<Longrightarrow> inOrder b a"
  by (cases "dSeverity a"; cases "dSeverity b") (auto simp: inOrder_def)

lemma inOrder_trans: "inOrder a b \<Longrightarrow> inOrder b c \<Longrightarrow> inOrder a c"
  by (cases "dSeverity a"; cases "dSeverity b"; cases "dSeverity c") (auto simp: inOrder_def)

lemma inOrder_same_key: "diagKey a = diagKey b \<Longrightarrow> inOrder a b"
  by (simp add: diagKey_def inOrder_def)

lemma set_insertDiag: "set (insertDiag x ys) = insert x (set ys)"
  by (induction ys) auto

lemma mset_insertDiag: "mset (insertDiag x ys) = add_mset x (mset ys)"
  by (induction ys) auto

lemma sorted_insertDiag:
  "sorted_wrt inOrder ys \<Longrightarrow> sorted_wrt inOrder (insertDiag x ys)"
proof (induction ys)
  case Nil
  then show ?case by simp
next
  case (Cons y ys)
  show ?case
  proof (cases "compareDiag x y \<le> 0")
    case True
    then have "inOrder x y" by (simp add: compareDiag_inOrder)
    with Cons.prems show ?thesis
      using True by (auto intro: inOrder_trans)
  next
    case False
    then have "inOrder y x" by (simp add: compareDiag_inOrder inOrder_total)
    with Cons show ?thesis
      using False by (auto simp: set_insertDiag)
  qed
qed

lemma filter_insertDiag:
  "filter (\<lambda>d. diagKey d = k) (insertDiag x ys)
   = (if diagKey x = k then x # filter (\<lambda>d. diagKey d = k) ys
      else filter (\<lambda>d. diagKey d = k) ys)"
proof (induction ys)
  case Nil
  then show ?case by simp
next
  case (Cons y ys)
  have "diagKey y \<noteq> diagKey x" if "\<not> compareDiag x y \<le> 0"
    using that inOrder_same_key [of x y] by (auto simp: compareDiag_inOrder)
  with Cons show ?case by auto
qed

lemma sorted_sortDiags: "sorted_wrt inOrder (sortDiags ds)"
  by (induction ds) (simp_all add: sortDiags_def sorted_insertDiag)

lemma mset_sortDiags: "mset (sortDiags ds) = mset ds"
  by (induction ds) (simp_all add: sortDiags_def mset_insertDiag)

lemma set_sortDiags: "set (sortDiags ds) = set ds"
  by (induction ds) (simp_all add: sortDiags_def set_insertDiag)

lemma filter_sortDiags:
  "filter (\<lambda>d. diagKey d = k) (sortDiags ds) = filter (\<lambda>d. diagKey d = k) ds"
  by (induction ds) (simp_all add: sortDiags_def filter_insertDiag)

text \<open>
  Claim C8. In the list the linter returns, every earlier entry is in order with every
  later one: an error before a warning, or the same severity and a line number not
  greater. The list is a rearrangement of the diagnostics in the order they were
  pushed, and entries with the same severity and line keep that order.
\<close>

theorem lint_output_sorted:
  "sorted_wrt inOrder (lintModuleText input)
   \<and> mset (lintModuleText input) = mset (lintCollect input)
   \<and> (\<forall>k. filter (\<lambda>d. diagKey d = k) (lintModuleText input)
            = filter (\<lambda>d. diagKey d = k) (lintCollect input))"
  by (simp add: lintModuleText_def sorted_sortDiags mset_sortDiags filter_sortDiags)

text \<open>
  Claim C7 on the code. An example marker followed by the next activity marker instead
  of a prompt: the new activity resets the pending marker without a diagnostic, and the
  linter reports nothing at all. The warning comes only when the marker is still pending
  at the end of the file.
\<close>

theorem example_marker_lost_at_next_activity:
  "lintModuleText
     ''$MODULE\<newline>DIOCO_DOC_ID: x\<newline>TITLE: T\<newline>TARGET_LANG_G: fr\<newline>HOME_LANG_G: en\<newline>$LESSON L\<newline>$EXERCISE A\<newline>EXAMPLE\<newline>$EXERCISE B\<newline>PROMPT: x\<newline>RESPONSE: y''
   = []
   \<and> map (\<lambda>d. (dSeverity d, dLine d, dCode d)) (lintModuleText
     ''$MODULE\<newline>DIOCO_DOC_ID: x\<newline>TITLE: T\<newline>TARGET_LANG_G: fr\<newline>HOME_LANG_G: en\<newline>$LESSON L\<newline>$EXERCISE A\<newline>EXAMPLE'')
   = [(SevWarning, 8, ''example-not-applied'')]"
  by code_simp

subsection \<open>Trimming\<close>

lemma trimStart_nonspace: "s \<noteq> [] \<Longrightarrow> \<not> isSpace (hd s) \<Longrightarrow> trimStart s = s"
  by (cases s) (simp_all add: trimStart_def)

lemma trimEnd_Cons_nonspace: "\<not> isSpace c \<Longrightarrow> trimEnd (c # cs) = c # trimEnd cs"
  by (simp add: trimEnd_def dropWhile_append)

lemma trimEnd_Cons_space_nonempty:
  "trimEnd cs \<noteq> [] \<Longrightarrow> trimEnd (c # cs) = c # trimEnd cs"
  by (auto simp: trimEnd_def dropWhile_append)

lemma trimEnd_last: "trimEnd l \<noteq> [] \<Longrightarrow> \<not> isSpace (last (trimEnd l))"
  using hd_dropWhile [of isSpace "rev l"] by (simp add: trimEnd_def last_rev)

lemma trimEnd_id: "s = [] \<or> \<not> isSpace (last s) \<Longrightarrow> trimEnd s = s"
proof (cases s rule: rev_cases)
  case Nil
  then show ?thesis by (simp add: trimEnd_def)
next
  case (snoc ys y)
  assume "s = [] \<or> \<not> isSpace (last s)"
  with snoc show ?thesis by (simp add: trimEnd_def)
qed

lemma trimEnd_idem: "trimEnd (trimEnd s) = trimEnd s"
  using trimEnd_last [of s] by (intro trimEnd_id) auto

text \<open>A line whose first visible character is \<open>c\<close> keeps it under every trim.\<close>

lemma trimEnd_keeps_start:
  assumes "trimStart raw = c # cs"
  shows "trimEnd raw = takeWhile isSpace raw @ c # trimEnd cs"
proof -
  have c: "\<not> isSpace c"
    using assms hd_dropWhile [of isSpace raw] by (simp add: trimStart_def)
  have "raw = takeWhile isSpace raw @ c # cs"
    using assms takeWhile_dropWhile_id [of isSpace raw] by (simp add: trimStart_def)
  then have "trimEnd raw = trimEnd (takeWhile isSpace raw @ c # cs)" by simp
  also have "\<dots> = takeWhile isSpace raw @ trimEnd (c # cs)"
    using c by (auto simp: trimEnd_def dropWhile_append dest: set_takeWhileD)
  finally show ?thesis using c by (simp add: trimEnd_Cons_nonspace)
qed

lemma trim_keeps_start:
  assumes "trimStart raw = c # cs"
  shows "trim (trimEnd raw) = c # trimEnd cs"
proof -
  have c: "\<not> isSpace c"
    using assms hd_dropWhile [of isSpace raw] by (simp add: trimStart_def)
  have "trimStart (takeWhile isSpace raw @ c # trimEnd cs) = c # trimEnd cs"
    using c by (auto simp: trimStart_def dropWhile_append dest: set_takeWhileD)
  moreover have "trim (trimEnd raw) = trimStart (trimEnd raw)"
    by (simp add: trim_def trimEnd_idem)
  ultimately show ?thesis
    by (simp add: trimEnd_keeps_start [OF assms])
qed


subsection \<open>One line of the linter\<close>


lemma fst_lintLine_indented:
  assumes "indentedField raw"
  shows "push SevError n ''Field must start at column 0 (no leading whitespace).''
           ''field-indent'' \<in> set (fst (lintLine n raw st))"
proof -
  from assms have tf: "testFieldPrefix (trimStart raw)" and r: "raw \<noteq> []"
    and h: "hd raw = CHR '' '' \<or> hd raw = CHR 0x09"
    by (simp_all add: indentedField_def)
  from tf obtain c cs where t: "trimStart raw = c # cs" and c: "isFieldChar c"
    by (cases "trimStart raw") (auto simp: testFieldPrefix_def split: if_splits)
  have tr: "trim (trimEnd raw) = c # trimEnd cs" by (rule trim_keeps_start [OF t])
  have nd: "\<not> startsWith (trimStart raw) ''$''" "\<not> startsWith (c # trimEnd cs) ''#''"
    using fieldChar_facts [OF c] by (simp_all add: t startsWith_def)
  have "lintIndent n raw = [push SevError n ''Field must start at column 0 (no leading whitespace).''
           ''field-indent'']"
    using r h tf nd by (simp add: lintIndent_def Let_def)
  then show ?thesis
    using nd by (simp add: lintLine_def Let_def tr split_def)
qed

lemma lintLines_member:
  assumes "i < length ls"
    and "d \<in> set (fst (lintLine (k + i + 1) (ls ! i) (snd (lintLines k (take i ls) st))))"
  shows "d \<in> set (fst (lintLines k ls st))"
  using assms
proof (induction ls arbitrary: i k st)
  case Nil
  then show ?case by simp
next
  case (Cons raw rest)
  show ?case
  proof (cases i)
    case 0
    with Cons.prems show ?thesis by (simp add: split_def Let_def)
  next
    case (Suc j)
    with Cons.prems have "j < length rest" by simp
    moreover have "d \<in> set (fst (lintLine (k + 1 + j + 1) (rest ! j)
                      (snd (lintLines (k + 1) (take j rest) (snd (lintLine (k + 1) raw st))))))"
      using Cons.prems Suc by (simp add: split_def Let_def)
    ultimately have "d \<in> set (fst (lintLines (k + 1) rest (snd (lintLine (k + 1) raw st))))"
      by (rule Cons.IH)
    then show ?thesis by (simp add: split_def Let_def)
  qed
qed

lemma lintModuleText_member:
  assumes "i < length (splitLines input)"
    and "d \<in> set (fst (lintLine (i + 1) (splitLines input ! i) (lintStateAt input i)))"
  shows "d \<in> set (lintModuleText input)"
  using lintLines_member [of i "splitLines input" d 0 lintInit] assms
  by (simp add: lintModuleText_def set_sortDiags lintCollect_def split_def lintStateAt_def Let_def)

subsection \<open>The parser on an indented field line\<close>

lemma processLine_indented:
  assumes "indentedField raw"
  shows "processLine raw st =
           (if currentActivity st \<noteq> None
            then st\<lparr> activityContentBuffer := activityContentBuffer st @ [raw] \<rparr>
            else st)"
proof -
  from assms have tf: "testFieldPrefix (trimStart raw)" and r: "raw \<noteq> []"
    and h: "hd raw = CHR '' '' \<or> hd raw = CHR 0x09"
    by (simp_all add: indentedField_def)
  from tf obtain c cs where t: "trimStart raw = c # cs" and c: "isFieldChar c"
    by (cases "trimStart raw") (auto simp: testFieldPrefix_def split: if_splits)
  from r h obtain w ws where raw: "raw = w # ws" and w: "w = CHR '' '' \<or> w = CHR 0x09"
    by (cases raw) auto
  have sp: "isSpace w" using w by (auto simp: isSpace_def)
  have te: "trimEnd raw = w # takeWhile isSpace ws @ c # trimEnd cs"
    using trimEnd_keeps_start [OF t] sp by (simp add: raw)
  have ts: "trimStart (trimEnd raw) = c # trimEnd cs"
    using trim_keeps_start [OF t] by (simp add: trim_def trimEnd_idem)
  have 1: "\<not> startsWith (trimStart (trimEnd raw)) ''#''"
    using fieldChar_facts [OF c] by (simp add: ts startsWith_def)
  have 2: "\<not> startsWith (trimEnd raw) ''$''"
    using w by (auto simp: te startsWith_def)
  have 3: "trimEnd raw \<noteq> ''EXAMPLE''"
    using w by (auto simp: te)
  have "\<not> isFieldChar w"
    using w by (auto simp: isFieldChar_def isUpperAZ_def)
  then have 4: "matchField (trimEnd raw) = None"
    by (simp add: te matchField_def)
  show ?thesis
    using 1 2 3 4 by (simp add: processLine_def Let_def)
qed

text \<open>
  Claim C5, as the code has it. For a field line indented with a space or a tab, the
  linter reports an error with the code \<open>field-indent\<close> on that line, wherever the
  line stands in the text. The parser does not take the line as a field: its field
  expression is anchored at column 0, so the line is raw content, appended as it is to
  the buffer of the open activity, or dropped when no activity is open.
\<close>

theorem indented_field_line:
  assumes "indentedField raw"
  shows "(i < length (splitLines input) \<and> splitLines input ! i = raw \<longrightarrow>
            \<lparr> dSeverity = SevError, dLine = i + 1,
              dMessage = ''Field must start at column 0 (no leading whitespace).'',
              dCode = ''field-indent'' \<rparr> \<in> set (lintModuleText input))
       \<and> processLine raw st =
           (if currentActivity st \<noteq> None
            then st\<lparr> activityContentBuffer := activityContentBuffer st @ [raw] \<rparr>
            else st)"
proof -
  have p: "\<lparr> dSeverity = SevError, dLine = i + 1,
             dMessage = ''Field must start at column 0 (no leading whitespace).'',
             dCode = ''field-indent'' \<rparr>
           = push SevError (i + 1) ''Field must start at column 0 (no leading whitespace).''
               ''field-indent''"
    by (simp add: push_def)
  show ?thesis
    unfolding p
    using lintModuleText_member [of i input] fst_lintLine_indented [OF assms]
          processLine_indented [OF assms]
    by blast
qed

theorem indented_field_line_witness:
  "indentedField '' TITLE: x''
   \<and> 1 < length (splitLines ''$MODULE\<newline> TITLE: x'')
   \<and> splitLines ''$MODULE\<newline> TITLE: x'' ! 1 = '' TITLE: x''
   \<and> \<lparr> dSeverity = SevError, dLine = 2,
         dMessage = ''Field must start at column 0 (no leading whitespace).'',
         dCode = ''field-indent'' \<rparr>
       \<in> set (lintModuleText ''$MODULE\<newline> TITLE: x'')
   \<and> processLine '' TITLE: x'' initialState = initialState"
proof -
  have h: "indentedField '' TITLE: x''" by code_simp
  have l: "1 < length (splitLines ''$MODULE\<newline> TITLE: x'')"
    and n: "splitLines ''$MODULE\<newline> TITLE: x'' ! 1 = '' TITLE: x''" by code_simp+
  have c: "currentActivity initialState = None" by (simp add: initialState_def)
  show ?thesis
    using h l n c indented_field_line [OF h, of 1 "''$MODULE\<newline> TITLE: x''" initialState]
    by (simp add: numeral_2_eq_2)
qed

text \<open>
  The claim as the specification words it fails: the indented \<open>TITLE\<close> line does
  not set the title (the same line at column 0 does), and a module whose only title
  line is indented is rejected for its missing title.
\<close>

theorem indented_field_applied_counterexample:
  "pm_title (ps_module (processLine '' TITLE: T'' initialState)) = None
   \<and> pm_title (ps_module (processLine ''TITLE: T'' initialState)) = Some ''T''
   \<and> map_sum id title (parseModuleFile
       ''$MODULE\<newline>DIOCO_DOC_ID: x\<newline> TITLE: T\<newline>TARGET_LANG_G: fr\<newline>HOME_LANG_G: en'')
     = Inl (Error ''Missing TITLE in .module file'')
   \<and> map_sum id title (parseModuleFile
       ''$MODULE\<newline>DIOCO_DOC_ID: x\<newline>TITLE: T\<newline>TARGET_LANG_G: fr\<newline>HOME_LANG_G: en'')
     = Inr ''T''"
  by code_simp

subsection \<open>Voice names\<close>











section \<open>The indexer and the parser agree on activity ids\<close>

subsection \<open>The ids the parser assigns\<close>

lemma lessonIds_append [simp]: "lessonIds (xs @ ys) = lessonIds xs @ lessonIds ys"
  by (simp add: lessonIds_def)

lemma lessonIds_single [simp]: "lessonIds [l] = map actId (activities l)"
  by (simp add: lessonIds_def)

lemma stateIds_buffer [simp]:
  "stateIds (st\<lparr> activityContentBuffer := b \<rparr>) = stateIds st"
  by (simp add: stateIds_def)

lemma lessonOpen_buffer [simp]:
  "lessonOpenIfActivity (st\<lparr> activityContentBuffer := b \<rparr>) = lessonOpenIfActivity st"
  by (simp add: lessonOpenIfActivity_def)

lemma finalizeActivity_ids:
  assumes "lessonOpenIfActivity st"
  shows "stateIds (finalizeActivity st) = stateIds st"
    and "currentActivity (finalizeActivity st) = None"
    and "pm_lessons (ps_module (finalizeActivity st)) = pm_lessons (ps_module st)"
  using assms
  by (auto simp: finalizeActivity_def stateIds_def lessonOpenIfActivity_def Let_def
           split: option.splits ActivityKind.splits)

lemma finalizeLesson_ids:
  "stateIds (finalizeLesson st) = stateIds st"
  "currentLesson (finalizeLesson st) = None"
  "currentActivity (finalizeLesson st) = currentActivity st"
  by (auto simp: finalizeLesson_def stateIds_def split: option.splits)

lemma startActivity_ids:
  assumes "lessonOpenIfActivity st"
  shows "stateIds (startActivity st k t) = insert (generateActivityId (kindName k) t) (stateIds st)"
    and "lessonOpenIfActivity (startActivity st k t)"
proof -
  let ?st1 = "finalizeActivity st"
  have a: "currentActivity ?st1 = None" and i: "stateIds ?st1 = stateIds st"
    using finalizeActivity_ids [OF assms] by simp_all
  show "stateIds (startActivity st k t) = insert (generateActivityId (kindName k) t) (stateIds st)"
    using a i [symmetric]
    by (cases k) (auto simp: startActivity_def stateIds_def Let_def baseActivity_def
                       split: option.splits)
  show "lessonOpenIfActivity (startActivity st k t)"
    by (simp add: startActivity_def lessonOpenIfActivity_def Let_def)
qed

lemma kindName_literals:
  "kindName DIALOGUE = ''DIALOGUE''" "kindName GRAMMAR = ''GRAMMAR''"
  "kindName EXERCISE = ''EXERCISE''" "kindName CHAT = ''CHAT''"
  by simp_all

lemma handleSectionMarker_ids:
  assumes "lessonOpenIfActivity st"
  shows "stateIds (handleSectionMarker t st)
         = stateIds st \<union> (case matchMarker t of
                             None \<Rightarrow> {}
                           | Some (marker, ttl) \<Rightarrow>
                               if marker \<in> set activityMarkers
                               then {generateActivityId marker (orElse ttl (defaultTitle marker))}
                               else {})"
    and "lessonOpenIfActivity (handleSectionMarker t st)"
proof -
  have l: "stateIds (finalizeLesson (finalizeActivity st)
                       \<lparr> currentLesson := Some \<lparr> lessonId = a, lessonTitle = b, activities = [] \<rparr> \<rparr>)
           = stateIds st" for a b
    using finalizeActivity_ids(1) [OF assms] finalizeLesson_ids [of "finalizeActivity st"]
    by (simp add: stateIds_def)
  show "stateIds (handleSectionMarker t st)
         = stateIds st \<union> (case matchMarker t of
                             None \<Rightarrow> {}
                           | Some (marker, ttl) \<Rightarrow>
                               if marker \<in> set activityMarkers
                               then {generateActivityId marker (orElse ttl (defaultTitle marker))}
                               else {})"
    using startActivity_ids(1) [OF assms] l
    by (simp add: handleSectionMarker_def activityMarkers_def defaultTitle_def Let_def
             split: option.splits)
  show "lessonOpenIfActivity (handleSectionMarker t st)"
    using startActivity_ids(2) [OF assms] assms finalizeActivity_ids(2) [OF assms]
    by (simp add: handleSectionMarker_def Let_def lessonOpenIfActivity_def finalizeLesson_ids
             split: option.splits)
qed

lemma handleModuleField_ids:
  "stateIds (case handleModuleField f v st of None \<Rightarrow> st | Some st' \<Rightarrow> st') = stateIds st"
  "lessonOpenIfActivity (case handleModuleField f v st of None \<Rightarrow> st | Some st' \<Rightarrow> st')
   = lessonOpenIfActivity st"
  by (simp_all add: handleModuleField_def Let_def stateIds_def lessonOpenIfActivity_def
           split: option.splits prod.splits)

lemma handleActivityField_ids:
  assumes "currentActivity st = Some a"
  shows "stateIds (handleActivityField f v a st) = stateIds st"
    and "lessonOpenIfActivity (handleActivityField f v a st) = lessonOpenIfActivity st"
  using assms
  by (simp_all add: handleActivityField_def stateIds_def lessonOpenIfActivity_def)

lemma handleField_ids:
  "stateIds (handleField f v st) = stateIds st"
  "lessonOpenIfActivity (handleField f v st) = lessonOpenIfActivity st"
proof -
  have c: "handleField f v st = (case handleModuleField f v st of None \<Rightarrow> st | Some st' \<Rightarrow> st')
           \<or> (\<exists>a. currentActivity st = Some a \<and> handleField f v st = handleActivityField f v a st)
           \<or> handleField f v st = st"
    by (auto simp: handleField_def split: option.splits)
  then show "stateIds (handleField f v st) = stateIds st"
    using handleModuleField_ids(1) [where f = f and v = v and st = st]
          handleActivityField_ids(1) [where st = st and f = f and v = v]
    by (elim disjE exE conjE) simp_all
  from c show "lessonOpenIfActivity (handleField f v st) = lessonOpenIfActivity st"
    using handleModuleField_ids(2) [where f = f and v = v and st = st]
          handleActivityField_ids(2) [where st = st and f = f and v = v]
    by (elim disjE exE conjE) simp_all
qed

lemma dollar_not_comment:
  assumes "startsWith t ''$''"
  shows "\<not> startsWith (trimStart t) ''#''"
proof -
  from assms obtain r where "t = CHR ''$'' # r"
    by (cases t) (auto simp: startsWith_def)
  then show ?thesis by (simp add: trimStart_def isSpace_def startsWith_def)
qed

lemma processLine_ids:
  assumes "lessonOpenIfActivity st"
  shows "stateIds (processLine l st) = stateIds st \<union> set_option (markerId l)"
    and "lessonOpenIfActivity (processLine l st)"
proof -
  let ?t = "trimEnd l"
  show "stateIds (processLine l st) = stateIds st \<union> set_option (markerId l)"
  proof (cases "startsWith ?t ''$''")
    case True
    then show ?thesis
      using dollar_not_comment [OF True] handleSectionMarker_ids(1) [OF assms, of ?t]
      by (auto simp: processLine_def markerId_def Let_def split: option.splits if_splits)
  next
    case False
    then show ?thesis
      by (simp add: processLine_def markerId_def Let_def handleField_ids split: option.splits)
  qed
  show "lessonOpenIfActivity (processLine l st)"
    using assms handleSectionMarker_ids(2) [OF assms, of ?t]
    by (simp add: processLine_def Let_def handleField_ids split: option.splits)
qed

lemma scan_ids:
  assumes "lessonOpenIfActivity st"
  shows "stateIds (foldl (\<lambda>st line. processLine line st) st ls)
           = stateIds st \<union> (\<Union>l\<in>set ls. set_option (markerId l))
       \<and> lessonOpenIfActivity (foldl (\<lambda>st line. processLine line st) st ls)"
  using assms
proof (induction ls arbitrary: st)
  case Nil
  then show ?case by simp
next
  case (Cons l ls)
  from Cons.IH [OF processLine_ids(2) [OF Cons.prems, of l]]
  show ?case by (auto simp: processLine_ids(1) [OF Cons.prems])
qed

lemma finalState_ids:
  "set (lessonIds (pm_lessons (ps_module (finalState input))))
   = (\<Union>l\<in>set (splitLines input). set_option (markerId l))"
proof -
  let ?st = "scanLines (splitLines input)"
  have i: "lessonOpenIfActivity initialState" "stateIds initialState = {}"
    by (simp_all add: initialState_def lessonOpenIfActivity_def stateIds_def lessonIds_def)
  from scan_ids [OF i(1), of "splitLines input"]
  have s: "stateIds ?st = (\<Union>l\<in>set (splitLines input). set_option (markerId l))"
    and w: "lessonOpenIfActivity ?st"
    by (simp_all add: scanLines_def i(2))
  let ?f = "finalizeLesson (finalizeActivity ?st)"
  have "stateIds ?f = stateIds ?st"
    by (simp add: finalizeLesson_ids finalizeActivity_ids(1) [OF w])
  moreover have "currentLesson ?f = None" "currentActivity ?f = None"
    by (simp_all add: finalizeLesson_ids finalizeActivity_ids(2) [OF w])
  ultimately show ?thesis
    using s by (simp add: stateIds_def finalState_def)
qed

subsection \<open>The keys the indexer assigns\<close>

lemma last_dropWhile:
  "dropWhile P xs \<noteq> [] \<Longrightarrow> last (dropWhile P xs) = last xs"
  using takeWhile_dropWhile_id [of P xs] last_appendR [of "dropWhile P xs" "takeWhile P xs"]
  by simp

text \<open>The title of a marker line has no white space at either end.\<close>

lemma marker_title_trimmed:
  assumes "matchMarker (trimEnd l) = Some (marker, Some t)"
  shows "trim t = t"
proof (cases "t = []")
  case True
  then show ?thesis by (simp add: trim_def trimStart_def trimEnd_def)
next
  case False
  let ?s = "trimEnd l"
  from assms obtain r where s: "?s = CHR ''$'' # r"
    by (cases ?s) (auto simp: matchMarker_def split: if_splits)
  let ?r1 = "dropWhile isWordChar r"
  from assms s have t: "t = dropWhile isSpace ?r1"
    by (auto simp: matchMarker_def Let_def split: if_splits list.splits)
  have r1: "?r1 \<noteq> []"
  proof
    assume "?r1 = []"
    with t False show False by simp
  qed
  have "last t = last ?r1" using False t last_dropWhile [of isSpace ?r1] by simp
  also have "\<dots> = last r" using r1 by (rule last_dropWhile)
  also have "\<dots> = last ?s"
  proof -
    have "r \<noteq> []" using r1 by auto
    then show ?thesis by (simp add: s)
  qed
  finally have "\<not> isSpace (last t)"
    using trimEnd_last [of l] s by simp
  then have e: "trimEnd t = t" by (intro trimEnd_id) simp
  have "\<not> isSpace (hd t)"
    using False t hd_dropWhile [of isSpace ?r1] by simp
  then have "trimStart t = t" using False by (rule trimStart_nonspace [rotated])
  with e show ?thesis by (simp add: trim_def)
qed

lemma default_slug_agrees:
  assumes "marker \<in> set activityMarkers"
  shows "slug_idx marker = slug (defaultTitle marker)"
proof -
  have "slug_idx ''DIALOGUE'' = slug (defaultTitle ''DIALOGUE'')"
       "slug_idx ''GRAMMAR'' = slug (defaultTitle ''GRAMMAR'')"
       "slug_idx ''EXERCISE'' = slug (defaultTitle ''EXERCISE'')"
       "slug_idx ''CHAT'' = slug (defaultTitle ''CHAT'')"
    by code_simp+
  with assms show ?thesis by (auto simp: activityMarkers_def)
qed

lemma id_derivations_agree:
  assumes "marker \<in> set activityMarkers"
  shows "generateActivityId_idx marker (if ttl \<noteq> [] then ttl else marker)
         = generateActivityId marker (orElse (Some ttl) (defaultTitle marker))"
proof -
  have "marker \<noteq> []" using assms by (auto simp: activityMarkers_def)
  then show ?thesis
    using default_slug_agrees [OF assms]
    by (simp add: generateActivityId_idx_def generateActivityId_def orElse_def truthy_def
          slug_idx_def slug_def)
qed

lemma marker_ids_agree:
  assumes "matchMarker (trimEnd l) = Some (marker, m2)" and "marker \<in> set activityMarkers"
  shows "generateActivityId_idx marker
           (if trim (case m2 of None \<Rightarrow> [] | Some t \<Rightarrow> t) \<noteq> []
            then trim (case m2 of None \<Rightarrow> [] | Some t \<Rightarrow> t) else marker)
         = generateActivityId marker (orElse m2 (defaultTitle marker))"
proof (cases m2)
  case None
  have "trim [] = []" by (simp add: trim_def trimStart_def trimEnd_def)
  then show ?thesis
    using None id_derivations_agree [OF assms(2), of "[]"]
    by (simp add: orElse_def truthy_def)
next
  case (Some t)
  with assms have "trim t = t" using marker_title_trimmed by simp
  then show ?thesis
    using Some id_derivations_agree [OF assms(2), of t] id_derivations_agree [OF assms(2), of "[]"]
    by (cases "t = []") simp_all
qed

lemma idxKeys_closeBlock [simp]: "idxKeys (closeBlock ls st e) = idxKeys st"
  by (auto simp: closeBlock_def idxKeys_def split: option.splits)

lemma idx_current_closeBlock [simp]: "idx_current (closeBlock ls st e) = None"
  by (auto simp: closeBlock_def split: option.splits)

lemma idxKeys_open:
  "idx_current st = None \<Longrightarrow> idxKeys (st\<lparr> idx_current := Some (cid, i) \<rparr>) = insert cid (idxKeys st)"
  by (simp add: idxKeys_def)

lemma idxKeys_indexStep:
  "idxKeys (indexStep ls st i) = idxKeys st \<union> set_option (markerId (ls ! i))"
proof (cases "startsWith (trimEnd (ls ! i)) ''$''")
  case False
  then show ?thesis by (simp add: indexStep_def markerId_def Let_def)
next
  case True
  let ?st1 = "if idx_current st \<noteq> None then closeBlock ls st (i - 1) else st"
  have k: "idxKeys ?st1 = idxKeys st" and c: "idx_current ?st1 = None"
    by (cases "idx_current st = None"; simp)+
  show ?thesis
  proof (cases "matchMarker (trimEnd (ls ! i))")
    case None
    then show ?thesis using True k by (simp add: indexStep_def markerId_def Let_def)
  next
    case (Some mt)
    obtain marker m2 where mt: "mt = (marker, m2)" by (cases mt)
    show ?thesis
    proof (cases "marker \<in> set activityMarkers")
      case False
      then show ?thesis
        using True Some mt k by (simp add: indexStep_def markerId_def Let_def)
    next
      case act: True
      have "indexStep ls st i = ?st1\<lparr> idx_current :=
              Some (generateActivityId marker (orElse m2 (defaultTitle marker)), i) \<rparr>"
        using True Some mt act marker_ids_agree [of "ls ! i" marker m2]
        by (simp add: indexStep_def Let_def)
      then show ?thesis
        using True Some mt act k idxKeys_open [OF c]
        by (simp add: markerId_def Let_def)
    qed
  qed
qed

lemma UN_nth_eq: "(\<Union>i\<in>{0..<length xs}. F (xs ! i)) = (\<Union>x\<in>set xs. F x)"
proof (intro set_eqI iffI)
  fix y
  assume "y \<in> (\<Union>i\<in>{0..<length xs}. F (xs ! i))"
  then obtain i where "i < length xs" and "y \<in> F (xs ! i)" by auto
  moreover from this have "xs ! i \<in> set xs" by simp
  ultimately show "y \<in> (\<Union>x\<in>set xs. F x)" by blast
next
  fix y
  assume "y \<in> (\<Union>x\<in>set xs. F x)"
  then obtain x where "x \<in> set xs" and y: "y \<in> F x" by auto
  then obtain i where "i < length xs" and "xs ! i = x" by (auto simp: in_set_conv_nth)
  with y show "y \<in> (\<Union>i\<in>{0..<length xs}. F (xs ! i))" by auto
qed

lemma idxKeys_fold:
  "idxKeys (foldl (indexStep ls) st [0..<n])
   = idxKeys st \<union> (\<Union>i\<in>{0..<n}. set_option (markerId (ls ! i)))"
proof (induction n)
  case 0
  then show ?case by simp
next
  case (Suc n)
  then show ?case
    by (auto simp: idxKeys_indexStep atLeastLessThanSuc)
qed

lemma index_keys:
  "dom (buildActivityRawIndex input)
   = (\<Union>l\<in>set (splitLines input). set_option (markerId l))"
proof -
  let ?ls = "splitLines input"
  let ?st = "foldl (indexStep ?ls) \<lparr> idx_map = Map.empty, idx_current = None \<rparr> [0..<length ?ls]"
  let ?st' = "if idx_current ?st \<noteq> None then closeBlock ?ls ?st (length ?ls - 1) else ?st"
  have "idx_current ?st' = None"
    by (cases "idx_current ?st = None"; simp)
  then have "dom (idx_map ?st') = idxKeys ?st'" by (simp add: idxKeys_def)
  also have "\<dots> = idxKeys ?st"
    by (cases "idx_current ?st = None"; simp)
  also have "\<dots> = (\<Union>i\<in>{0..<length ?ls}. set_option (markerId (?ls ! i)))"
  proof -
    have "idxKeys \<lparr> idx_map = Map.empty, idx_current = None \<rparr> = {}"
      by (simp add: idxKeys_def)
    then show ?thesis by (simp add: idxKeys_fold)
  qed
  also have "\<dots> = (\<Union>l\<in>set ?ls. set_option (markerId l))"
    by (rule UN_nth_eq)
  finally show ?thesis by (simp add: buildActivityRawIndex_def Let_def)
qed

text \<open>
  Claim C9. For a text the parser accepts, the keys of the indexer's map are exactly
  the ids of the activities of the parsed module; and for each of the four activity
  markers the two id derivations agree on every title, the indexer's fallback to the
  marker word and the parser's default title giving the same slug.
\<close>

theorem indexer_parser_ids_agree:
  assumes "parseModuleFile input = Inr m"
  shows "dom (buildActivityRawIndex input) = set (moduleActivityIds m)
       \<and> (\<forall>marker ttl. marker \<in> set activityMarkers \<longrightarrow>
            generateActivityId_idx marker (if ttl \<noteq> [] then ttl else marker)
              = generateActivityId marker (orElse (Some ttl) (defaultTitle marker)))"
proof -
  from assms have "lessons m = pm_lessons (ps_module (finalState input))"
    by (auto simp: parseModuleFile_def Let_def split: if_splits)
  then have "set (moduleActivityIds m) = dom (buildActivityRawIndex input)"
    by (simp add: moduleActivityIds_def finalState_ids index_keys)
  then show ?thesis using id_derivations_agree by simp
qed

theorem indexer_parser_ids_agree_witness:
  "\<not> isl (parseModuleFile
      ''$MODULE\<newline>DIOCO_DOC_ID: x\<newline>TITLE: T\<newline>TARGET_LANG_G: fr\<newline>HOME_LANG_G: en\<newline>$LESSON L1\<newline>$DIALOGUE D1\<newline>LINE: Bonjour\<newline>$GRAMMAR'')
   \<and> dom (buildActivityRawIndex
      ''$MODULE\<newline>DIOCO_DOC_ID: x\<newline>TITLE: T\<newline>TARGET_LANG_G: fr\<newline>HOME_LANG_G: en\<newline>$LESSON L1\<newline>$DIALOGUE D1\<newline>LINE: Bonjour\<newline>$GRAMMAR'')
     = {''DIALOGUE-d1'', ''GRAMMAR-grammar''}"
proof -
  let ?input = "''$MODULE\<newline>DIOCO_DOC_ID: x\<newline>TITLE: T\<newline>TARGET_LANG_G: fr\<newline>HOME_LANG_G: en\<newline>$LESSON L1\<newline>$DIALOGUE D1\<newline>LINE: Bonjour\<newline>$GRAMMAR''"
  have ok: "\<not> isl (parseModuleFile ?input)" by code_simp
  then obtain m where m: "parseModuleFile ?input = Inr m"
    by (cases "parseModuleFile ?input") auto
  have "map_sum id moduleActivityIds (parseModuleFile ?input)
        = Inr [''DIALOGUE-d1'', ''GRAMMAR-grammar'']" by code_simp
  with m have ids: "moduleActivityIds m = [''DIALOGUE-d1'', ''GRAMMAR-grammar'']" by simp
  show ?thesis
    using ok conjunct1 [OF indexer_parser_ids_agree [OF m]] by (simp add: ids)
qed

end
